theory Spec2Isabelle
  imports Complex_Main "HOL-Library.Word" "HOL-Library.Log_Nat"
begin

section \<open>Values of the host language\<close>

text \<open>
  The program is TypeScript.  A string is a sequence of UTF-16 code units; every glyph of
  the maze layout is a single code unit.

  A \<open>number\<close> is an IEEE 754 binary64 value.  The arithmetic of the player (the
  quotient of a position by the tile size, the sum of a position and the speed, the
  neighbours of a cell) is modelled with its rounding, see \<open>jsnum\<close> below.  The grid
  queries take a finite number as the rational it is; the neighbour index \<open>col + 1\<close>
  or \<open>row - 1\<close> inside \<open>wallCollision\<close> is taken exactly, its rounding differing
  only beyond \<open>2 ^ 53\<close>, past the end of any array.  The coordinates recorded by the
  parser (a column index times the tile size, plus half the tile size) are taken exactly.
\<close>

type_synonym jschar = "16 word"
type_synonym jsstring = "jschar list"

text \<open>
  The values a query can hand back: \<open>undefined\<close> (a missing array element), a boolean,
  or a number.  Reading a property of \<open>undefined\<close> raises a \<open>TypeError\<close>.
\<close>

datatype jsval = JUndefined | JBool bool | JNum int

datatype error = TypeError

text \<open>Truthiness, as \<open>!v\<close> and \<open>a && v\<close> test it.\<close>

fun truthy :: "jsval \<Rightarrow> bool" where
  "truthy JUndefined = False"
| "truthy (JBool b) = b"
| "truthy (JNum n) = (n \<noteq> 0)"

text \<open>\<open>Number.isInteger\<close> on a finite number.\<close>

definition isInteger :: "rat \<Rightarrow> bool" where
  "isInteger q = (of_int \<lfloor>q\<rfloor> = q)"

text \<open>
  \<open>xs[i]\<close> on an array: the element when \<open>i\<close> is an integer index inside the array,
  \<open>undefined\<close> (here \<open>None\<close>) for every other number, negative, fractional or too large.
\<close>

definition nth_opt :: "'a list \<Rightarrow> nat \<Rightarrow> 'a option" where
  "nth_opt xs i = (if i < length xs then Some (xs ! i) else None)"

definition js_index :: "'a list \<Rightarrow> rat \<Rightarrow> 'a option" where
  "js_index xs i = (if isInteger i \<and> 0 \<le> i then nth_opt xs (nat \<lfloor>i\<rfloor>) else None)"

subsection \<open>Numbers\<close>

text \<open>
  A number: a finite value of the format, given by the rational it is, one of the two
  infinities, or NaN.  The sign of a zero is not kept: the program tells the two zeros
  apart only through a division by zero, and it treats the infinities of either sign
  alike (neither is an integer, neither is a cell of the grid).
\<close>

datatype jsnum = Num rat | PosInf | NegInf | NaN

text \<open>
  \<open>ilog2 q\<close> is the binary exponent of a rational other than zero: the integer \<open>e\<close>
  with \<open>2 ^ e \<le> |q| < 2 ^ (e + 1)\<close>.
\<close>

definition ilog2 :: "rat \<Rightarrow> int" where
  "ilog2 q = (if 1 \<le> \<bar>q\<bar> then bitlen \<lfloor>\<bar>q\<bar>\<rfloor> - 1 else - bitlen (\<lceil>1 / \<bar>q\<bar>\<rceil> - 1))"

text \<open>The nearest integer, a tie going to the even one.\<close>

definition roundEven :: "rat \<Rightarrow> int" where
  "roundEven t =
     (let f = \<lfloor>t\<rfloor>; d = t - of_int f
      in if d < 1 / 2 then f else if 1 / 2 < d then f + 1 else if even f then f else f + 1)"

text \<open>
  The value of the format nearest to an exact result: 53 significant bits, so a spacing of
  \<open>2 ^ (e - 52)\<close> at binary exponent \<open>e\<close>; the exponent is not taken below -1022
  (gradual underflow), and a rounded magnitude of \<open>2 ^ 1024\<close> or more is an infinity.
\<close>

definition roundDouble :: "rat \<Rightarrow> jsnum" where
  "roundDouble q =
     (if q = 0 then Num 0
      else let e = max (ilog2 q) (- 1022); u = 2 powi (e - 52);
               r = of_int (roundEven (q / u)) * u
           in if 2 powi 1024 \<le> r then PosInf
              else if r \<le> - (2 powi 1024) then NegInf
              else Num r)"

text \<open>The operators \<open>+\<close>, unary and binary \<open>-\<close>, and \<open>/\<close>.\<close>

fun js_add :: "jsnum \<Rightarrow> jsnum \<Rightarrow> jsnum" where
  "js_add (Num a) (Num b) = roundDouble (a + b)"
| "js_add NaN _ = NaN"
| "js_add _ NaN = NaN"
| "js_add PosInf NegInf = NaN"
| "js_add NegInf PosInf = NaN"
| "js_add PosInf _ = PosInf"
| "js_add _ PosInf = PosInf"
| "js_add NegInf _ = NegInf"
| "js_add _ NegInf = NegInf"

fun js_neg :: "jsnum \<Rightarrow> jsnum" where
  "js_neg (Num a) = Num (- a)"
| "js_neg PosInf = NegInf"
| "js_neg NegInf = PosInf"
| "js_neg NaN = NaN"

definition js_sub :: "jsnum \<Rightarrow> jsnum \<Rightarrow> jsnum" where
  "js_sub a b = js_add a (js_neg b)"

fun js_div :: "jsnum \<Rightarrow> jsnum \<Rightarrow> jsnum" where
  "js_div (Num a) (Num b) =
     (if b = 0 then (if a = 0 then NaN else if 0 < a then PosInf else NegInf)
      else roundDouble (a / b))"
| "js_div NaN _ = NaN"
| "js_div _ NaN = NaN"
| "js_div (Num a) PosInf = Num 0"
| "js_div (Num a) NegInf = Num 0"
| "js_div PosInf (Num b) = (if 0 \<le> b then PosInf else NegInf)"
| "js_div NegInf (Num b) = (if 0 \<le> b then NegInf else PosInf)"
| "js_div _ _ = NaN"

text \<open>\<open>Math.floor\<close> and the comparisons with a finite bound.\<close>

fun js_floor :: "jsnum \<Rightarrow> jsnum" where
  "js_floor (Num a) = Num (of_int \<lfloor>a\<rfloor>)"
| "js_floor v = v"

fun js_less :: "jsnum \<Rightarrow> rat \<Rightarrow> bool" where
  "js_less (Num a) b = (a < b)"
| "js_less NegInf b = True"
| "js_less _ b = False"

fun js_ge :: "jsnum \<Rightarrow> rat \<Rightarrow> bool" where
  "js_ge (Num a) b = (b \<le> a)"
| "js_ge PosInf b = True"
| "js_ge _ b = False"

text \<open>\<open>xs[v]\<close> for any number: \<open>undefined\<close> at an infinity and at NaN.\<close>

fun js_indexN :: "'a list \<Rightarrow> jsnum \<Rightarrow> 'a option" where
  "js_indexN xs (Num a) = js_index xs a"
| "js_indexN xs _ = None"

section \<open>Player.ts: the direction enumeration\<close>

datatype Direction = UP | DOWN | LEFT | RIGHT

section \<open>MazeMap.ts\<close>

text \<open>
  The fields of the class that the logic reads and writes.  The drawing context is left
  out, and the layout string is an argument of \<open>loadMap\<close>.  The grid is a
  \<open>number[][]\<close> holding the tile codes 0 (empty), 1 (wall), 2 (marker), 3 (exit).
\<close>

record MazeMap =
  map_m :: "int list list"
  tileSize :: rat
  startX :: rat
  startY :: rat
  endX :: rat
  endY :: rat

subsection \<open>The glyphs\<close>

text \<open>
  The characters \<open>loadMap\<close> compares with, by code unit: the white circle U+25CB
  (path marker), the middle dot U+00B7 (empty path), the box-drawing corners U+250C,
  U+2510, U+2518, U+2514 and lines U+2502 (vertical) and U+2500 (horizontal), the equals
  sign (the double line of the layout), the letters X (start) and E (end); and the
  newline at which the layout is split.
\<close>

definition glyph_marker :: jschar where "glyph_marker = 0x25CB"
definition glyph_path :: jschar where "glyph_path = 0xB7"
definition glyph_corner_tl :: jschar where "glyph_corner_tl = 0x250C"
definition glyph_corner_tr :: jschar where "glyph_corner_tr = 0x2510"
definition glyph_corner_br :: jschar where "glyph_corner_br = 0x2518"
definition glyph_corner_bl :: jschar where "glyph_corner_bl = 0x2514"
definition glyph_vertical :: jschar where "glyph_vertical = 0x2502"
definition glyph_horizontal :: jschar where "glyph_horizontal = 0x2500"
definition glyph_double :: jschar where "glyph_double = 0x3D"
definition glyph_start :: jschar where "glyph_start = 0x58"
definition glyph_end :: jschar where "glyph_end = 0x45"
definition glyph_newline :: jschar where "glyph_newline = 0x0A"

subsection \<open>loadMap\<close>

text \<open>\<open>mapString.split('\n')\<close>: always at least one row, the last one possibly empty.\<close>

fun split_nl :: "jsstring \<Rightarrow> jsstring list" where
  "split_nl [] = [[]]"
| "split_nl (c # cs) =
     (if c = glyph_newline then [] # split_nl cs
      else (case split_nl cs of [] \<Rightarrow> [[c]] | r # rs \<Rightarrow> (c # r) # rs))"

text \<open>
  The body of the inner loop, for the character \<open>c\<close> at column \<open>x\<close> of row \<open>y\<close>:
  the branches in the order of the source, each pushing one tile code on \<open>line\<close>; the
  start and end glyphs also overwrite the recorded coordinates.
\<close>

definition is_wall_glyph :: "jschar \<Rightarrow> bool" where
  "is_wall_glyph c =
     (c = glyph_corner_tl \<or> c = glyph_corner_tr \<or> c = glyph_corner_br \<or> c = glyph_corner_bl
      \<or> c = glyph_vertical \<or> c = glyph_horizontal \<or> c = glyph_double)"

definition parseChar :: "nat \<Rightarrow> nat \<Rightarrow> jschar \<Rightarrow> MazeMap \<times> int list \<Rightarrow> MazeMap \<times> int list" where
  "parseChar y x c st =
     (case st of (m, line) \<Rightarrow>
        if c = glyph_marker then (m, line @ [2])
        else if c = glyph_path then (m, line @ [0])
        else if is_wall_glyph c then (m, line @ [1])
        else if c = glyph_start then
          (m\<lparr>startX := of_nat x * tileSize m + tileSize m / 2,
             startY := of_nat y * tileSize m\<rparr>, line @ [0])
        else if c = glyph_end then
          (m\<lparr>endX := of_nat x * tileSize m + tileSize m / 2,
             endY := of_nat y * tileSize m\<rparr>, line @ [3])
        else (m, line @ [0]))"

text \<open>The inner loop over the characters of a row, from column \<open>x\<close> on.\<close>

fun parseChars :: "nat \<Rightarrow> nat \<Rightarrow> jschar list \<Rightarrow> MazeMap \<times> int list \<Rightarrow> MazeMap \<times> int list" where
  "parseChars y x [] st = st"
| "parseChars y x (c # cs) st = parseChars y (Suc x) cs (parseChar y x c st)"

text \<open>The outer loop over the rows, from row \<open>y\<close> on; each finished line is pushed on the grid.\<close>

fun parseRows :: "nat \<Rightarrow> jsstring list \<Rightarrow> MazeMap \<Rightarrow> MazeMap" where
  "parseRows y [] m = m"
| "parseRows y (r # rs) m =
     (case parseChars y 0 r (m, []) of
        (m1, line) \<Rightarrow> parseRows (Suc y) rs (m1\<lparr>map_m := map_m m1 @ [line]\<rparr>))"

text \<open>
  The fallback scan.  \<open>scanCols m y n\<close> is the inner loop with \<open>x\<close> running from
  \<open>n - 1\<close> down to 0; it stops at the first cell whose code is 0 or 2.  A column past
  the end of row \<open>y\<close> reads \<open>undefined\<close> and is skipped.
\<close>

definition cell :: "int list list \<Rightarrow> nat \<Rightarrow> nat \<Rightarrow> int option" where
  "cell g y x = (case nth_opt g y of None \<Rightarrow> None | Some r \<Rightarrow> nth_opt r x)"

primrec scanCols :: "MazeMap \<Rightarrow> nat \<Rightarrow> nat \<Rightarrow> MazeMap" where
  "scanCols m y 0 = m"
| "scanCols m y (Suc x) =
     (if cell (map_m m) y x = Some 0 \<or> cell (map_m m) y x = Some 2 then
        m\<lparr>endX := of_nat x * tileSize m + tileSize m / 2,
          endY := of_nat y * tileSize m,
          map_m := (map_m m)[y := (map_m m ! y)[x := 3]]\<rparr>
      else scanCols m y x)"

text \<open>
  \<open>scanRows m w n\<close> is the outer loop with \<open>y\<close> running from \<open>n - 1\<close> down to 0,
  every row being scanned from column \<open>w - 1\<close>.  The loop leaves as soon as a
  coordinate of the end position is not zero.
\<close>

primrec scanRows :: "MazeMap \<Rightarrow> nat \<Rightarrow> nat \<Rightarrow> MazeMap" where
  "scanRows m w 0 = m"
| "scanRows m w (Suc y) =
     (let m1 = scanCols m y w
      in if endX m1 \<noteq> 0 \<or> endY m1 \<noteq> 0 then m1 else scanRows m1 w y)"

text \<open>
  \<open>loadMap\<close>, with the fields of the constructor: they start at zero, the layout is
  parsed, and the fallback runs when both end coordinates are still zero.  The source
  takes \<open>lastRow = map.length - 1\<close> and \<open>lastCol = map[0].length - 1\<close> once, before
  the scan; the scan functions count from one more than these.  Row 0 always exists,
  since \<open>split\<close> returns at least one row.
\<close>

definition parseLayout :: "rat \<Rightarrow> jsstring \<Rightarrow> MazeMap" where
  "parseLayout ts s =
     parseRows 0 (split_nl s)
       \<lparr>map_m = [], tileSize = ts, startX = 0, startY = 0, endX = 0, endY = 0\<rparr>"

definition loadMap :: "rat \<Rightarrow> jsstring \<Rightarrow> MazeMap" where
  "loadMap ts s =
     (let m = parseLayout ts s
      in if endX m = 0 \<and> endY m = 0
         then scanRows m (length (map_m m ! 0)) (length (map_m m)) else m)"


definition getEndPosition :: "MazeMap \<Rightarrow> rat \<times> rat" where
  "getEndPosition m = (endX m, endY m)"

subsection \<open>The queries\<close>

text \<open>
  \<open>this.map[r] && this.map[r][c] === 1\<close>: \<open>undefined\<close> when row \<open>r\<close> is missing,
  otherwise the boolean of the comparison (false for a missing element).
\<close>

definition rowAnd :: "int list list \<Rightarrow> rat \<Rightarrow> rat \<Rightarrow> jsval" where
  "rowAnd g r c =
     (case js_index g r of None \<Rightarrow> JUndefined
      | Some line \<Rightarrow> JBool (js_index line c = Some 1))"

fun wallCollision :: "MazeMap \<Rightarrow> rat \<Rightarrow> rat \<Rightarrow> Direction \<Rightarrow> jsval" where
  "wallCollision m col row UP = rowAnd (map_m m) (row - 1) col"
| "wallCollision m col row DOWN = rowAnd (map_m m) (row + 1) col"
| "wallCollision m col row LEFT = rowAnd (map_m m) row (col - 1)"
| "wallCollision m col row RIGHT = rowAnd (map_m m) row (col + 1)"

text \<open>
  The bounds test shared by \<open>getTile\<close> and \<open>isEndPosition\<close>.  The disjunction is
  evaluated left to right, so \<open>this.map[0].length\<close> is read only when the grid has a row.
\<close>

definition outOfBounds :: "MazeMap \<Rightarrow> rat \<Rightarrow> rat \<Rightarrow> error + bool" where
  "outOfBounds m col row =
     (if row < 0 \<or> col < 0 \<or> row \<ge> of_nat (length (map_m m)) then Inr True
      else (case map_m m of [] \<Rightarrow> Inl TypeError
            | r0 # _ \<Rightarrow> Inr (col \<ge> of_nat (length r0))))"

text \<open>\<open>this.map[row][col]\<close>: a \<open>TypeError\<close> when \<open>this.map[row]\<close> is \<open>undefined\<close>.\<close>

definition readCell :: "MazeMap \<Rightarrow> rat \<Rightarrow> rat \<Rightarrow> error + jsval" where
  "readCell m col row =
     (case js_index (map_m m) row of None \<Rightarrow> Inl TypeError
      | Some line \<Rightarrow>
          Inr (case js_index line col of None \<Rightarrow> JUndefined | Some t \<Rightarrow> JNum t))"

definition getTile :: "MazeMap \<Rightarrow> rat \<Rightarrow> rat \<Rightarrow> error + jsval" where
  "getTile m col row =
     (case outOfBounds m col row of Inl e \<Rightarrow> Inl e
      | Inr True \<Rightarrow> Inr (JNum (- 1))
      | Inr False \<Rightarrow> readCell m col row)"

definition isEndPosition :: "MazeMap \<Rightarrow> rat \<Rightarrow> rat \<Rightarrow> error + bool" where
  "isEndPosition m col row =
     (case outOfBounds m col row of Inl e \<Rightarrow> Inl e
      | Inr True \<Rightarrow> Inr False
      | Inr False \<Rightarrow>
          (case readCell m col row of Inl e \<Rightarrow> Inl e
           | Inr v \<Rightarrow> Inr (v = JNum 3)))"

text \<open>
  \<open>isEndPosition\<close> as \<open>checkWinCondition\<close> calls it, with any number: the same
  tests and the same read, a comparison with NaN being false.
\<close>

definition outOfBoundsN :: "MazeMap \<Rightarrow> jsnum \<Rightarrow> jsnum \<Rightarrow> error + bool" where
  "outOfBoundsN m col row =
     (if js_less row 0 \<or> js_less col 0 \<or> js_ge row (of_nat (length (map_m m))) then Inr True
      else (case map_m m of [] \<Rightarrow> Inl TypeError
            | r0 # _ \<Rightarrow> Inr (js_ge col (of_nat (length r0)))))"

definition isEndPositionN :: "MazeMap \<Rightarrow> jsnum \<Rightarrow> jsnum \<Rightarrow> error + bool" where
  "isEndPositionN m col row =
     (case outOfBoundsN m col row of Inl e \<Rightarrow> Inl e
      | Inr True \<Rightarrow> Inr False
      | Inr False \<Rightarrow>
          (case js_indexN (map_m m) row of None \<Rightarrow> Inl TypeError
           | Some line \<Rightarrow> Inr (js_indexN line col = Some 3)))"

subsection \<open>The constructor\<close>

text \<open>
  The layout literal of the constructor as UTF-16 code units, row by row, each row but
  the last followed by the newline \<open>0xA\<close>.  The glyphs are those defined above;
  \<open>0x20\<close> is the space, \<open>0x2E\<close> the full stop, \<open>0x42\<close> the letter B and
  \<open>0x7C\<close> the vertical bar.  Rows 10 to 12 and 16 to 18 have 23 characters, the
  others 28.
\<close>

definition mazeString :: jsstring where
  "mazeString =
     [
      \<comment> \<open>row 0\<close>
      0x250C, 0x2500, 0x2500, 0x2500, 0x2500, 0x2500, 0x2500, 0x2500, 0x2500, 0x2500, 0x2500, 0x2500, 0x2500, 0x2510,
      0x250C, 0x2500, 0x2500, 0x2500, 0x2500, 0x2500, 0x2500, 0x2500, 0x2500, 0x2500, 0x2500, 0x2500, 0x2500, 0x2510,
      0xA,
      \<comment> \<open>row 1\<close>
      0x2502, 0xB7, 0xB7, 0xB7, 0xB7, 0xB7, 0xB7, 0xB7, 0xB7, 0xB7, 0xB7, 0xB7, 0xB7, 0x2502,
      0x2502, 0xB7, 0xB7, 0xB7, 0xB7, 0xB7, 0xB7, 0xB7, 0xB7, 0xB7, 0xB7, 0xB7, 0xB7, 0x2502,
      0xA,
      \<comment> \<open>row 2\<close>
      0x2502, 0xB7, 0x250C, 0x2500, 0x2500, 0x2510, 0xB7, 0x250C, 0x2500, 0x2500, 0x2500, 0x2510, 0xB7, 0x2502,
      0x2502, 0xB7, 0x250C, 0x2500, 0x2500, 0x2500, 0x2510, 0xB7, 0x250C, 0x2500, 0x2500, 0x2510, 0xB7, 0x2502,
      0xA,
      \<comment> \<open>row 3\<close>
      0x2502, 0x2E, 0x2502, 0x20, 0x20, 0x2502, 0xB7, 0x2502, 0x20, 0x20, 0x20, 0x2502, 0xB7, 0x2502,
      0x2502, 0xB7, 0x2502, 0x20, 0x20, 0x20, 0x2502, 0xB7, 0x2502, 0x20, 0x20, 0x2502, 0x25CB, 0x2502,
      0xA,
      \<comment> \<open>row 4\<close>
      0x2502, 0xB7, 0x2514, 0x2500, 0x2500, 0x2518, 0xB7, 0x2514, 0x2500, 0x2500, 0x2500, 0x2518, 0xB7, 0x2514,
      0x2518, 0xB7, 0x2514, 0x2500, 0x2500, 0x2500, 0x2518, 0xB7, 0x2514, 0x2500, 0x2500, 0x2518, 0xB7, 0x2502,
      0xA,
      \<comment> \<open>row 5\<close>
      0x2502, 0xB7, 0xB7, 0xB7, 0xB7, 0xB7, 0xB7, 0xB7, 0xB7, 0xB7, 0xB7, 0xB7, 0xB7, 0xB7,
      0xB7, 0xB7, 0xB7, 0xB7, 0xB7, 0xB7, 0xB7, 0xB7, 0xB7, 0xB7, 0xB7, 0xB7, 0xB7, 0x2502,
      0xA,
      \<comment> \<open>row 6\<close>
      0x2502, 0xB7, 0x250C, 0x2500, 0x2500, 0x2510, 0xB7, 0x250C, 0x2510, 0xB7, 0x250C, 0x2500, 0x2500, 0x2500,
      0x2500, 0x2500, 0x2500, 0x2510, 0xB7, 0x250C, 0x2510, 0xB7, 0x250C, 0x2500, 0x2500, 0x2510, 0xB7, 0x2502,
      0xA,
      \<comment> \<open>row 7\<close>
      0x2502, 0xB7, 0x2514, 0x2500, 0x2500, 0x2518, 0xB7, 0x2502, 0x2502, 0xB7, 0x2514, 0x2500, 0x2500, 0x2510,
      0x250C, 0x2500, 0x2500, 0x2518, 0xB7, 0x2502, 0x2502, 0xB7, 0x2514, 0x2500, 0x2500, 0x2518, 0xB7, 0x2502,
      0xA,
      \<comment> \<open>row 8\<close>
      0x2502, 0xB7, 0xB7, 0xB7, 0xB7, 0xB7, 0xB7, 0x2502, 0x2502, 0xB7, 0xB7, 0xB7, 0xB7, 0x2502,
      0x2502, 0xB7, 0xB7, 0xB7, 0xB7, 0x2502, 0x2502, 0xB7, 0xB7, 0xB7, 0xB7, 0xB7, 0xB7, 0x2502,
      0xA,
      \<comment> \<open>row 9\<close>
      0x2514, 0x2500, 0x2500, 0x2500, 0x2500, 0x2510, 0xB7, 0x2502, 0x2514, 0x2500, 0x2500, 0x2510, 0x20, 0x2502,
      0x2502, 0x20, 0x250C, 0x2500, 0x2500, 0x2518, 0x2502, 0xB7, 0x250C, 0x2500, 0x2500, 0x2500, 0x2500, 0x2518,
      0xA,
      \<comment> \<open>row 10\<close>
      0x20, 0x20, 0x20, 0x20, 0x20, 0x2502, 0xB7, 0x2502, 0x250C, 0x2500, 0x2500, 0x2518, 0x20, 0x2514,
      0x2518, 0x20, 0x2514, 0x2500, 0x2500, 0x2510, 0x2502, 0xB7, 0x2502, 0xA,
      \<comment> \<open>row 11\<close>
      0x20, 0x20, 0x20, 0x20, 0x20, 0x2502, 0xB7, 0x2502, 0x2502, 0x20, 0x20, 0x20, 0x20, 0x42,
      0x20, 0x20, 0x20, 0x20, 0x20, 0x2502, 0x2502, 0xB7, 0x2502, 0xA,
      \<comment> \<open>row 12\<close>
      0x20, 0x20, 0x20, 0x20, 0x20, 0x2502, 0xB7, 0x2502, 0x2502, 0x20, 0x250C, 0x2500, 0x2500, 0x3D,
      0x3D, 0x2500, 0x2500, 0x2510, 0x20, 0x2502, 0x2502, 0xB7, 0x2502, 0xA,
      \<comment> \<open>row 13\<close>
      0x2500, 0x2500, 0x2500, 0x2500, 0x2500, 0x2518, 0xB7, 0x2514, 0x2518, 0x20, 0x2502, 0x20, 0x20, 0x20,
      0x20, 0x20, 0x20, 0x2502, 0x20, 0x2514, 0x2518, 0xB7, 0x2514, 0x2500, 0x2500, 0x2500, 0x2500, 0x2500,
      0xA,
      \<comment> \<open>row 14\<close>
      0x7C, 0x7C, 0x20, 0x20, 0x20, 0x20, 0xB7, 0x20, 0x20, 0x20, 0x2502, 0x20, 0x20, 0x20,
      0x20, 0x20, 0x20, 0x2502, 0x20, 0x20, 0x20, 0xB7, 0x20, 0x20, 0x20, 0x20, 0x20, 0x7C,
      0xA,
      \<comment> \<open>row 15\<close>
      0x2500, 0x2500, 0x2500, 0x2500, 0x2500, 0x2510, 0xB7, 0x250C, 0x2510, 0x20, 0x2502, 0x20, 0x20, 0x20,
      0x20, 0x20, 0x20, 0x2502, 0x20, 0x250C, 0x2510, 0xB7, 0x250C, 0x2500, 0x2500, 0x2500, 0x2500, 0x2500,
      0xA,
      \<comment> \<open>row 16\<close>
      0x20, 0x20, 0x20, 0x20, 0x20, 0x2502, 0xB7, 0x2502, 0x2502, 0x20, 0x2514, 0x2500, 0x2500, 0x2500,
      0x2500, 0x2500, 0x2500, 0x2518, 0x20, 0x2502, 0x2502, 0xB7, 0x2502, 0xA,
      \<comment> \<open>row 17\<close>
      0x20, 0x20, 0x20, 0x20, 0x20, 0x2502, 0xB7, 0x2502, 0x2502, 0x20, 0x20, 0x20, 0x20, 0x20,
      0x20, 0x20, 0x20, 0x20, 0x20, 0x2502, 0x2502, 0xB7, 0x2502, 0xA,
      \<comment> \<open>row 18\<close>
      0x20, 0x20, 0x20, 0x20, 0x20, 0x2502, 0xB7, 0x2502, 0x2502, 0x20, 0x250C, 0x2500, 0x2500, 0x2500,
      0x2500, 0x2500, 0x2500, 0x2510, 0x20, 0x2502, 0x2502, 0xB7, 0x2502, 0xA,
      \<comment> \<open>row 19\<close>
      0x250C, 0x2500, 0x2500, 0x2500, 0x2500, 0x2518, 0xB7, 0x2514, 0x2518, 0x20, 0x2514, 0x2500, 0x2500, 0x2510,
      0x250C, 0x2500, 0x2500, 0x2518, 0x20, 0x2514, 0x2518, 0xB7, 0x2514, 0x2500, 0x2500, 0x2500, 0x2500, 0x2510,
      0xA,
      \<comment> \<open>row 20\<close>
      0x2502, 0xB7, 0xB7, 0xB7, 0xB7, 0xB7, 0xB7, 0xB7, 0xB7, 0xB7, 0xB7, 0xB7, 0xB7, 0x2502,
      0x2502, 0xB7, 0xB7, 0xB7, 0xB7, 0xB7, 0xB7, 0xB7, 0xB7, 0xB7, 0xB7, 0xB7, 0xB7, 0x2502,
      0xA,
      \<comment> \<open>row 21\<close>
      0x2502, 0xB7, 0x250C, 0x2500, 0x2500, 0x2510, 0xB7, 0x250C, 0x2500, 0x2500, 0x2500, 0x2510, 0xB7, 0x2502,
      0x2502, 0xB7, 0x250C, 0x2500, 0x2500, 0x2500, 0x2510, 0xB7, 0x250C, 0x2500, 0x2500, 0x2510, 0xB7, 0x2502,
      0xA,
      \<comment> \<open>row 22\<close>
      0x2502, 0xB7, 0x2514, 0x2500, 0x2510, 0x2502, 0xB7, 0x2514, 0x2500, 0x2500, 0x2500, 0x2518, 0xB7, 0x2514,
      0x2518, 0xB7, 0x2514, 0x2500, 0x2500, 0x2500, 0x2518, 0xB7, 0x2502, 0x250C, 0x2500, 0x2518, 0xB7, 0x2502,
      0xA,
      \<comment> \<open>row 23\<close>
      0x2502, 0x25CB, 0xB7, 0xB7, 0x2502, 0x2502, 0xB7, 0xB7, 0xB7, 0xB7, 0xB7, 0xB7, 0xB7, 0x58,
      0x20, 0xB7, 0xB7, 0xB7, 0xB7, 0xB7, 0xB7, 0xB7, 0x2502, 0x2502, 0xB7, 0xB7, 0x45, 0x2502,
      0xA,
      \<comment> \<open>row 24\<close>
      0x2514, 0x2500, 0x2510, 0xB7, 0x2502, 0x2502, 0xB7, 0x250C, 0x2510, 0xB7, 0x250C, 0x2500, 0x2500, 0x2500,
      0x2500, 0x2500, 0x2500, 0x2510, 0xB7, 0x250C, 0x2510, 0xB7, 0x2502, 0x2502, 0xB7, 0x250C, 0x2500, 0x2518,
      0xA,
      \<comment> \<open>row 25\<close>
      0x250C, 0x2500, 0x2518, 0xB7, 0x2514, 0x2518, 0xB7, 0x2502, 0x2502, 0xB7, 0x2514, 0x2500, 0x2500, 0x2510,
      0x250C, 0x2500, 0x2500, 0x2518, 0xB7, 0x2502, 0x2502, 0xB7, 0x2514, 0x2518, 0xB7, 0x2514, 0x2500, 0x2510,
      0xA,
      \<comment> \<open>row 26\<close>
      0x2502, 0xB7, 0xB7, 0xB7, 0xB7, 0xB7, 0xB7, 0x2502, 0x2502, 0xB7, 0xB7, 0xB7, 0xB7, 0x2502,
      0x2502, 0xB7, 0xB7, 0xB7, 0xB7, 0x2502, 0x2502, 0xB7, 0xB7, 0xB7, 0xB7, 0xB7, 0xB7, 0x2502,
      0xA,
      \<comment> \<open>row 27\<close>
      0x2502, 0xB7, 0x250C, 0x2500, 0x2500, 0x2500, 0x2500, 0x2518, 0x2514, 0x2500, 0x2500, 0x2510, 0xB7, 0x2502,
      0x2502, 0xB7, 0x250C, 0x2500, 0x2500, 0x2518, 0x2514, 0x2500, 0x2500, 0x2500, 0x2500, 0x2510, 0xB7, 0x2502,
      0xA,
      \<comment> \<open>row 28\<close>
      0x2502, 0xB7, 0x2514, 0x2500, 0x2500, 0x2500, 0x2500, 0x2500, 0x2500, 0x2500, 0x2500, 0x2518, 0xB7, 0x2514,
      0x2518, 0xB7, 0x2514, 0x2500, 0x2500, 0x2500, 0x2500, 0x2500, 0x2500, 0x2500, 0x2500, 0x2518, 0xB7, 0x2502,
      0xA,
      \<comment> \<open>row 29\<close>
      0x2502, 0xB7, 0xB7, 0xB7, 0xB7, 0xB7, 0xB7, 0xB7, 0xB7, 0xB7, 0xB7, 0xB7, 0xB7, 0xB7,
      0xB7, 0xB7, 0xB7, 0xB7, 0xB7, 0xB7, 0xB7, 0xB7, 0xB7, 0xB7, 0xB7, 0xB7, 0xB7, 0x2502,
      0xA,
      \<comment> \<open>row 30\<close>
      0x2514, 0x2500, 0x2500, 0x2500, 0x2500, 0x2500, 0x2500, 0x2500, 0x2500, 0x2500, 0x2500, 0x2500, 0x2500, 0x2500,
      0x2500, 0x2500, 0x2500, 0x2500, 0x2500, 0x2500, 0x2500, 0x2500, 0x2500, 0x2500, 0x2500, 0x2500, 0x2500, 0x2518]"

definition newMazeMap :: "rat \<Rightarrow> MazeMap" where
  "newMazeMap ts = loadMap ts mazeString"

section \<open>Player.ts\<close>

text \<open>
  The fields of the class, the drawing context left out.  The player holds a reference to
  the maze, which no method of the player assigns to.
\<close>

record Player =
  x_p :: jsnum
  y_p :: jsnum
  speed :: jsnum
  direction :: Direction
  requestedDirection :: Direction
  tileSize_p :: jsnum
  mazeMap :: MazeMap

definition newPlayer :: "jsnum \<Rightarrow> jsnum \<Rightarrow> jsnum \<Rightarrow> MazeMap \<Rightarrow> Player" where
  "newPlayer x y ts m =
     \<lparr>x_p = x, y_p = y, speed = Num 2, direction = RIGHT, requestedDirection = RIGHT,
      tileSize_p = ts, mazeMap = m\<rparr>"

definition changeDirection :: "Direction \<Rightarrow> Player \<Rightarrow> Player" where
  "changeDirection d p = p\<lparr>requestedDirection := d\<rparr>"

text \<open>The four pairs tested by the first branch of the arbitration.\<close>

definition isReversal :: "Direction \<Rightarrow> Direction \<Rightarrow> bool" where
  "isReversal d r =
     ((d = DOWN \<and> r = UP) \<or> (d = UP \<and> r = DOWN) \<or> (d = RIGHT \<and> r = LEFT)
      \<or> (d = LEFT \<and> r = RIGHT))"

text \<open>
  \<open>Number.isInteger(col) && Number.isInteger(row) && test(col, row)\<close>: the conjunction is
  evaluated left to right, so the test is made only at finite integers.
\<close>

definition atIntegerCell :: "jsnum \<Rightarrow> jsnum \<Rightarrow> (rat \<Rightarrow> rat \<Rightarrow> bool) \<Rightarrow> bool" where
  "atIntegerCell col row test =
     (case col of
        Num c \<Rightarrow> (case row of Num r \<Rightarrow> isInteger c \<and> isInteger r \<and> test c r | _ \<Rightarrow> False)
      | _ \<Rightarrow> False)"

text \<open>
  The first half of \<open>move\<close>: the arbitration of a requested direction.  \<open>col\<close> and
  \<open>row\<close> are the quotients computed at the top of \<open>move\<close>, not floored.
\<close>

definition arbitrate :: "jsnum \<Rightarrow> jsnum \<Rightarrow> Player \<Rightarrow> Player" where
  "arbitrate col row p =
     (if requestedDirection p \<noteq> direction p then
        if isReversal (direction p) (requestedDirection p) then
          p\<lparr>direction := requestedDirection p\<rparr>
        else if atIntegerCell col row
                  (\<lambda>c r. \<not> truthy (wallCollision (mazeMap p) c r (requestedDirection p))) then
          p\<lparr>direction := requestedDirection p\<rparr>
        else p
      else p)"

text \<open>
  The second half: the motion step.  The test \<open>if (this.direction)\<close> of the source holds
  for every member of the enumeration (each is a non-empty string).
\<close>

definition blocked :: "jsnum \<Rightarrow> jsnum \<Rightarrow> Player \<Rightarrow> bool" where
  "blocked col row p =
     atIntegerCell col row (\<lambda>c r. truthy (wallCollision (mazeMap p) c r (direction p)))"

definition advance :: "jsnum \<Rightarrow> jsnum \<Rightarrow> Player \<Rightarrow> Player" where
  "advance col row p =
     (if \<not> blocked col row p then
        (case direction p of
           UP \<Rightarrow> p\<lparr>y_p := js_sub (y_p p) (speed p)\<rparr>
         | DOWN \<Rightarrow> p\<lparr>y_p := js_add (y_p p) (speed p)\<rparr>
         | LEFT \<Rightarrow> p\<lparr>x_p := js_sub (x_p p) (speed p)\<rparr>
         | RIGHT \<Rightarrow> p\<lparr>x_p := js_add (x_p p) (speed p)\<rparr>)
      else p)"

definition move :: "Player \<Rightarrow> Player" where
  "move p =
     (let col = js_div (x_p p) (tileSize_p p); row = js_div (y_p p) (tileSize_p p)
      in advance col row (arbitrate col row p))"

text \<open>
  \<open>checkWinCondition\<close>: five queries in the order of the source, each returning at once
  when it answers true.  The method assigns to nothing, so the model returns the answer
  alone.
\<close>

definition checkWinCondition :: "Player \<Rightarrow> error + bool" where
  "checkWinCondition p =
     (let row = js_floor (js_div (y_p p) (tileSize_p p));
          col = js_floor (js_div (x_p p) (tileSize_p p));
          m = mazeMap p
      in case isEndPositionN m col row of Inl e \<Rightarrow> Inl e | Inr True \<Rightarrow> Inr True
         | Inr False \<Rightarrow>
        (case isEndPositionN m (js_add col (Num 1)) row of Inl e \<Rightarrow> Inl e
         | Inr True \<Rightarrow> Inr True
         | Inr False \<Rightarrow>
        (case isEndPositionN m (js_sub col (Num 1)) row of Inl e \<Rightarrow> Inl e
         | Inr True \<Rightarrow> Inr True
         | Inr False \<Rightarrow>
        (case isEndPositionN m col (js_add row (Num 1)) of Inl e \<Rightarrow> Inl e
         | Inr True \<Rightarrow> Inr True
         | Inr False \<Rightarrow>
        (case isEndPositionN m col (js_sub row (Num 1)) of Inl e \<Rightarrow> Inl e
         | Inr True \<Rightarrow> Inr True
         | Inr False \<Rightarrow> Inr False)))))"

section \<open>Notions of the specification\<close>

text \<open>
  The specification speaks of the exact reversal of a direction; the source tests four
  pairs.  \<open>spec_opposite\<close> follows the specification's words and is compared with
  \<open>isReversal\<close> below.
\<close>

fun spec_opposite :: "Direction \<Rightarrow> Direction" where
  "spec_opposite UP = DOWN"
| "spec_opposite DOWN = UP"
| "spec_opposite LEFT = RIGHT"
| "spec_opposite RIGHT = LEFT"

text \<open>
  The cell \<open>(c, r)\<close> of the grid holds the exit code: the specification's
  ``is the Exit tile'', read off the stored grid.
\<close>

definition exitAt :: "MazeMap \<Rightarrow> int \<Rightarrow> int \<Rightarrow> bool" where
  "exitAt m c r = (0 \<le> c \<and> 0 \<le> r \<and> cell (map_m m) (nat r) (nat c) = Some 3)"

text \<open>
  The exit at \<open>(c, r)\<close> as the queries can see it: stored there, in a column inside
  the length of row 0.
\<close>

definition exitSeen :: "MazeMap \<Rightarrow> int \<Rightarrow> int \<Rightarrow> bool" where
  "exitSeen m c r = (exitAt m c r \<and> c < int (length (map_m m ! 0)))"

text \<open>No row of the grid is longer than row 0, whose length bounds every column test.\<close>

definition rowsWithinFirst :: "MazeMap \<Rightarrow> bool" where
  "rowsWithinFirst m = list_all (\<lambda>line. length line \<le> length (map_m m ! 0)) (map_m m)"

text \<open>
  The tile types of the specification and the codes the source stores for them (the
  comments of \<open>loadMap\<close> and the cases of \<open>draw\<close> name them).
\<close>

datatype Tile = Empty | Wall | Marker | Exit

fun tileCode :: "Tile \<Rightarrow> int" where
  "tileCode Empty = 0"
| "tileCode Wall = 1"
| "tileCode Marker = 2"
| "tileCode Exit = 3"

text \<open>
  The classification table of the specification, glyph by glyph: the marker glyph, the
  empty-path glyph, the six box-drawing glyphs and the double-line glyph, the start glyph,
  the end glyph, and every other character.  It is compared with the branches of
  \<open>parseChar\<close> below.
\<close>

definition spec_classify :: "jschar \<Rightarrow> Tile" where
  "spec_classify c =
     (if c = glyph_marker then Marker
      else if c = glyph_path then Empty
      else if c \<in> set [glyph_corner_tl, glyph_corner_tr, glyph_corner_br, glyph_corner_bl,
                        glyph_vertical, glyph_horizontal, glyph_double] then Wall
      else if c = glyph_start then Empty
      else if c = glyph_end then Exit
      else Empty)"


section \<open>Small mazes used as test inputs\<close>

text \<open>
  A room of one row: a wall, the start glyph and an empty path, closed by a wall below and
  by a wall with one opening above.  There is no end glyph, so the fallback promotes the
  path cell of the middle row.
\<close>

definition demoLayout :: jsstring where
  "demoLayout =
     [glyph_horizontal, glyph_path, glyph_horizontal, glyph_newline,
      glyph_vertical, glyph_start, glyph_path, glyph_newline,
      glyph_horizontal, glyph_horizontal, glyph_horizontal]"

definition demoMaze :: MazeMap where
  "demoMaze = loadMap 32 demoLayout"

text \<open>
  A ragged layout of walls: two glyphs, then one, then three followed by an empty path in
  column 3; columns 2 and 3 of the last row lie past the end of row 0.
\<close>

definition raggedLayout :: jsstring where
  "raggedLayout =
     [glyph_horizontal, glyph_horizontal, glyph_newline,
      glyph_horizontal, glyph_newline,
      glyph_horizontal, glyph_horizontal, glyph_horizontal, glyph_path]"

definition raggedMaze :: MazeMap where
  "raggedMaze = loadMap 32 raggedLayout"





text \<open>
  A row of one path over a row of a path and the end glyph: the exit lies in column 1, past
  the end of row 0.
\<close>

definition longRowLayout :: jsstring where
  "longRowLayout = [glyph_path, glyph_newline, glyph_path, glyph_end]"

definition longRowMaze :: MazeMap where
  "longRowMaze = loadMap 32 longRowLayout"

section \<open>Auxiliary functions\<close>

text \<open>The positions \<open>(x, y)\<close> of the stored exit codes, row by row.\<close>

definition exitCells :: "int list list \<Rightarrow> (nat \<times> nat) list" where
  "exitCells g =
     concat (map (\<lambda>y. map (\<lambda>x. (x, y)) (filter (\<lambda>x. g ! y ! x = 3) [0..<length (g ! y)]))
                 [0..<length g])"

section \<open>Evaluation and basic facts\<close>

lemmas glyph_defs =
  glyph_marker_def glyph_path_def glyph_corner_tl_def glyph_corner_tr_def
  glyph_corner_br_def glyph_corner_bl_def glyph_vertical_def glyph_horizontal_def
  glyph_double_def glyph_start_def glyph_end_def glyph_newline_def

lemmas load_defs =
  loadMap_def parseLayout_def parseChar_def is_wall_glyph_def cell_def nth_opt_def

lemmas move_defs =
  move_def newPlayer_def changeDirection_def arbitrate_def advance_def blocked_def
  atIntegerCell_def isReversal_def js_sub_def rowAnd_def js_index_def nth_opt_def

lemma demoMaze_eq:
  "demoMaze = \<lparr>map_m = [[1, 0, 1], [1, 0, 3], [1, 1, 1]], tileSize = 32,
                startX = 48, startY = 32, endX = 80, endY = 32\<rparr>"
  by (simp add: demoMaze_def demoLayout_def load_defs glyph_defs)

text \<open>
  The maze of the game (\<open>Game.ts\<close> builds it with tile size 32): the parsed grid,
  each row written as its first fourteen tiles and the rest, the start at column 13 of
  row 23 and the end glyph at column 26 of the same row.
\<close>

lemma gameMaze_eq:
  "newMazeMap 32 =
     \<lparr>map_m =
     [[1, 1, 1, 1, 1, 1, 1, 1, 1, 1, 1, 1, 1, 1] @ [1, 1, 1, 1, 1, 1, 1, 1, 1, 1, 1, 1, 1, 1],
      [1, 0, 0, 0, 0, 0, 0, 0, 0, 0, 0, 0, 0, 1] @ [1, 0, 0, 0, 0, 0, 0, 0, 0, 0, 0, 0, 0, 1],
      [1, 0, 1, 1, 1, 1, 0, 1, 1, 1, 1, 1, 0, 1] @ [1, 0, 1, 1, 1, 1, 1, 0, 1, 1, 1, 1, 0, 1],
      [1, 0, 1, 0, 0, 1, 0, 1, 0, 0, 0, 1, 0, 1] @ [1, 0, 1, 0, 0, 0, 1, 0, 1, 0, 0, 1, 2, 1],
      [1, 0, 1, 1, 1, 1, 0, 1, 1, 1, 1, 1, 0, 1] @ [1, 0, 1, 1, 1, 1, 1, 0, 1, 1, 1, 1, 0, 1],
      [1, 0, 0, 0, 0, 0, 0, 0, 0, 0, 0, 0, 0, 0] @ [0, 0, 0, 0, 0, 0, 0, 0, 0, 0, 0, 0, 0, 1],
      [1, 0, 1, 1, 1, 1, 0, 1, 1, 0, 1, 1, 1, 1] @ [1, 1, 1, 1, 0, 1, 1, 0, 1, 1, 1, 1, 0, 1],
      [1, 0, 1, 1, 1, 1, 0, 1, 1, 0, 1, 1, 1, 1] @ [1, 1, 1, 1, 0, 1, 1, 0, 1, 1, 1, 1, 0, 1],
      [1, 0, 0, 0, 0, 0, 0, 1, 1, 0, 0, 0, 0, 1] @ [1, 0, 0, 0, 0, 1, 1, 0, 0, 0, 0, 0, 0, 1],
      [1, 1, 1, 1, 1, 1, 0, 1, 1, 1, 1, 1, 0, 1] @ [1, 0, 1, 1, 1, 1, 1, 0, 1, 1, 1, 1, 1, 1],
      [0, 0, 0, 0, 0, 1, 0, 1, 1, 1, 1, 1, 0, 1] @ [1, 0, 1, 1, 1, 1, 1, 0, 1],
      [0, 0, 0, 0, 0, 1, 0, 1, 1, 0, 0, 0, 0, 0] @ [0, 0, 0, 0, 0, 1, 1, 0, 1],
      [0, 0, 0, 0, 0, 1, 0, 1, 1, 0, 1, 1, 1, 1] @ [1, 1, 1, 1, 0, 1, 1, 0, 1],
      [1, 1, 1, 1, 1, 1, 0, 1, 1, 0, 1, 0, 0, 0] @ [0, 0, 0, 1, 0, 1, 1, 0, 1, 1, 1, 1, 1, 1],
      [0, 0, 0, 0, 0, 0, 0, 0, 0, 0, 1, 0, 0, 0] @ [0, 0, 0, 1, 0, 0, 0, 0, 0, 0, 0, 0, 0, 0],
      [1, 1, 1, 1, 1, 1, 0, 1, 1, 0, 1, 0, 0, 0] @ [0, 0, 0, 1, 0, 1, 1, 0, 1, 1, 1, 1, 1, 1],
      [0, 0, 0, 0, 0, 1, 0, 1, 1, 0, 1, 1, 1, 1] @ [1, 1, 1, 1, 0, 1, 1, 0, 1],
      [0, 0, 0, 0, 0, 1, 0, 1, 1, 0, 0, 0, 0, 0] @ [0, 0, 0, 0, 0, 1, 1, 0, 1],
      [0, 0, 0, 0, 0, 1, 0, 1, 1, 0, 1, 1, 1, 1] @ [1, 1, 1, 1, 0, 1, 1, 0, 1],
      [1, 1, 1, 1, 1, 1, 0, 1, 1, 0, 1, 1, 1, 1] @ [1, 1, 1, 1, 0, 1, 1, 0, 1, 1, 1, 1, 1, 1],
      [1, 0, 0, 0, 0, 0, 0, 0, 0, 0, 0, 0, 0, 1] @ [1, 0, 0, 0, 0, 0, 0, 0, 0, 0, 0, 0, 0, 1],
      [1, 0, 1, 1, 1, 1, 0, 1, 1, 1, 1, 1, 0, 1] @ [1, 0, 1, 1, 1, 1, 1, 0, 1, 1, 1, 1, 0, 1],
      [1, 0, 1, 1, 1, 1, 0, 1, 1, 1, 1, 1, 0, 1] @ [1, 0, 1, 1, 1, 1, 1, 0, 1, 1, 1, 1, 0, 1],
      [1, 2, 0, 0, 1, 1, 0, 0, 0, 0, 0, 0, 0, 0] @ [0, 0, 0, 0, 0, 0, 0, 0, 1, 1, 0, 0, 3, 1],
      [1, 1, 1, 0, 1, 1, 0, 1, 1, 0, 1, 1, 1, 1] @ [1, 1, 1, 1, 0, 1, 1, 0, 1, 1, 0, 1, 1, 1],
      [1, 1, 1, 0, 1, 1, 0, 1, 1, 0, 1, 1, 1, 1] @ [1, 1, 1, 1, 0, 1, 1, 0, 1, 1, 0, 1, 1, 1],
      [1, 0, 0, 0, 0, 0, 0, 1, 1, 0, 0, 0, 0, 1] @ [1, 0, 0, 0, 0, 1, 1, 0, 0, 0, 0, 0, 0, 1],
      [1, 0, 1, 1, 1, 1, 1, 1, 1, 1, 1, 1, 0, 1] @ [1, 0, 1, 1, 1, 1, 1, 1, 1, 1, 1, 1, 0, 1],
      [1, 0, 1, 1, 1, 1, 1, 1, 1, 1, 1, 1, 0, 1] @ [1, 0, 1, 1, 1, 1, 1, 1, 1, 1, 1, 1, 0, 1],
      [1, 0, 0, 0, 0, 0, 0, 0, 0, 0, 0, 0, 0, 0] @ [0, 0, 0, 0, 0, 0, 0, 0, 0, 0, 0, 0, 0, 1],
      [1, 1, 1, 1, 1, 1, 1, 1, 1, 1, 1, 1, 1, 1] @ [1, 1, 1, 1, 1, 1, 1, 1, 1, 1, 1, 1, 1, 1]],
      tileSize = 32, startX = 432, startY = 736, endX = 848, endY = 736\<rparr>"
  unfolding newMazeMap_def by code_simp

lemma raggedMaze_eq:
  "raggedMaze = \<lparr>map_m = [[1, 1], [1], [1, 1, 1, 0]], tileSize = 32,
                  startX = 0, startY = 0, endX = 0, endY = 0\<rparr>"
  by (simp add: raggedMaze_def raggedLayout_def load_defs glyph_defs)

lemma longRowMaze_eq:
  "longRowMaze = \<lparr>map_m = [[0], [0, 3]], tileSize = 32,
                   startX = 0, startY = 0, endX = 48, endY = 32\<rparr>"
  by (simp add: longRowMaze_def longRowLayout_def load_defs glyph_defs)

lemma isInteger_of_int [simp]: "isInteger (of_int k)"
  by (simp add: isInteger_def)

lemma isInteger_of_nat [simp]: "isInteger (of_nat n)"
  by (simp add: isInteger_def)

lemma isInteger_numeral [simp]: "isInteger (numeral k)"
  by (simp add: isInteger_def)

lemma isInteger_0 [simp]: "isInteger 0"
  by (simp add: isInteger_def)

lemma isInteger_1 [simp]: "isInteger 1"
  by (simp add: isInteger_def)

lemma floor_numeral_div_rat [simp]:
  "\<lfloor>numeral a / numeral b :: rat\<rfloor> = numeral a div numeral b"
  using floor_divide_of_int_eq [where ?'a = rat, of "numeral a" "numeral b"] by simp

lemma isInteger_div_iff:
  assumes "ts \<noteq> 0"
  shows "isInteger (v / ts) \<longleftrightarrow> (\<exists>k::int. v = of_int k * ts)"
proof -
  have "isInteger (v / ts) \<longleftrightarrow> (\<exists>k::int. v / ts = of_int k)"
    by (simp add: isInteger_def of_int_floor_cancel)
  also have "\<dots> \<longleftrightarrow> (\<exists>k::int. v = of_int k * ts)"
    using assms by (simp add: field_simps)
  finally show ?thesis .
qed

lemma isInteger_numeral_div [simp]:
  "isInteger (numeral a / numeral b) \<longleftrightarrow> (numeral b :: int) dvd numeral a"
proof -
  have "isInteger (numeral a / numeral b)
          \<longleftrightarrow> (\<exists>k::int. (numeral a :: rat) = of_int k * numeral b)"
    by (rule isInteger_div_iff) simp
  also have "\<dots> \<longleftrightarrow> (\<exists>k::int. (of_int (numeral a) :: rat) = of_int (numeral b * k))"
    by (simp add: mult.commute)
  also have "\<dots> \<longleftrightarrow> (\<exists>k::int. (numeral a :: int) = numeral b * k)"
    unfolding of_int_eq_iff ..
  finally show ?thesis
    by (simp add: dvd_def)
qed

section \<open>Rounding\<close>

text \<open>
  The exponent brackets the magnitude, the rounded value is within half a spacing of the
  exact one, an integer below \<open>2 ^ 53\<close> in magnitude is kept as it is, and the quotient
  of two such integers is rounded to an integer only when it is one.
\<close>

lemma ilog2_bounds:
  assumes "q \<noteq> 0"
  shows "2 powi (ilog2 q) \<le> \<bar>q\<bar> \<and> \<bar>q\<bar> < 2 powi (ilog2 q + 1)"
proof (cases "1 \<le> \<bar>q\<bar>")
  case True
  define m where "m = \<lfloor>\<bar>q\<bar>\<rfloor>"
  have m1: "1 \<le> m" using True by (simp add: m_def le_floor_iff)
  then have m0: "0 < m" by simp
  have e: "ilog2 q = bitlen m - 1" using True by (simp add: ilog2_def m_def)
  have b1: "1 \<le> bitlen m" using m0 by (simp add: bitlen_alt_def)
  from bitlen_bounds [OF m0]
  have lo: "(2::int) ^ nat (bitlen m - 1) \<le> m" and hi: "m < 2 ^ nat (bitlen m)"
    by simp_all
  have "(2::rat) powi (bitlen m - 1) = of_int (2 ^ nat (bitlen m - 1))"
    using b1 by (simp add: power_int_def)
  also have "\<dots> \<le> of_int m" using lo by (simp only: of_int_le_iff)
  also have "\<dots> \<le> \<bar>q\<bar>" by (simp add: m_def)
  finally have L: "2 powi (ilog2 q) \<le> \<bar>q\<bar>" by (simp add: e)
  have "m + 1 \<le> 2 ^ nat (bitlen m)" using hi by simp
  then have "(of_int (m + 1) :: rat) \<le> of_int (2 ^ nat (bitlen m))"
    by (simp only: of_int_le_iff)
  moreover have "\<bar>q\<bar> < of_int (m + 1)"
    using floor_correct [of "\<bar>q\<bar>"] by (simp add: m_def)
  moreover have "(of_int (2 ^ nat (bitlen m)) :: rat) = 2 powi (bitlen m)"
    using b1 by (simp add: power_int_def)
  ultimately have "\<bar>q\<bar> < 2 powi (ilog2 q + 1)" by (simp add: e)
  with L show ?thesis by simp
next
  case False
  define t where "t = 1 / \<bar>q\<bar>"
  define n where "n = \<lceil>t\<rceil>"
  define k where "k = bitlen (n - 1)"
  have q0: "0 < \<bar>q\<bar>" using assms by simp
  have t1: "1 < t" using False q0 by (simp add: t_def)
  have n2: "2 \<le> n" using t1 unfolding n_def by (simp add: le_ceiling_iff) 
  then have p: "0 < n - 1" by simp
  have e: "ilog2 q = - k" using False by (simp add: ilog2_def k_def n_def t_def)
  have k1: "1 \<le> k" using p by (simp add: k_def bitlen_alt_def)
  from bitlen_bounds [OF p]
  have lo: "(2::int) ^ nat (k - 1) \<le> n - 1" and hi: "n - 1 < 2 ^ nat k"
    by (simp_all add: k_def)
  have "t \<le> of_int n" by (simp add: n_def)
  also have "(of_int n :: rat) \<le> of_int (2 ^ nat k)"
  proof -
    have "n \<le> 2 ^ nat k" using hi by simp
    then show ?thesis by (simp only: of_int_le_iff)
  qed
  also have "\<dots> = 2 powi k" using k1 by (simp add: power_int_def)
  finally have "t \<le> 2 powi k" .
  then have "1 / (2 powi k) \<le> 1 / t"
    using t1 by (intro divide_left_mono) (auto intro!: mult_pos_pos)
  then have L: "2 powi (- k) \<le> \<bar>q\<bar>"
    by (simp add: t_def power_int_minus_divide)
  have "of_int (n - 1) < t"
    using ceiling_correct [of t] by (simp add: n_def)
  moreover have "(of_int (2 ^ nat (k - 1)) :: rat) \<le> of_int (n - 1)"
    using lo by (simp only: of_int_le_iff)
  moreover have "(of_int (2 ^ nat (k - 1)) :: rat) = 2 powi (k - 1)"
    using k1 by (simp add: power_int_def)
  ultimately have tl: "2 powi (k - 1) < t" by simp
  have "1 / t < 1 / (2 powi (k - 1))"
    using tl t1 by (intro divide_strict_left_mono) (auto intro!: mult_pos_pos)
  then have "\<bar>q\<bar> < 2 powi (- k + 1)"
    by (simp add: t_def power_int_minus_divide [symmetric])
  with L show ?thesis by (simp add: e)
qed

lemma roundEven_error: "\<bar>of_int (roundEven t) - t\<bar> \<le> 1 / 2"
proof -
  have "of_int \<lfloor>t\<rfloor> \<le> t" "t < of_int \<lfloor>t\<rfloor> + 1" by linarith+
  then show ?thesis
    by (auto simp: roundEven_def Let_def abs_le_iff)
qed

lemma roundEven_of_int [simp]: "roundEven (of_int k) = k"
  by (simp add: roundEven_def)

lemma powi_53: "(2::rat) powi 53 = 9007199254740992"
  by (simp add: power_int_def)

lemma roundDouble_normal:
  assumes q: "q \<noteq> 0" and lo: "- 1022 \<le> ilog2 q" and hi: "ilog2 q \<le> 1022"
  shows "roundDouble q = Num (of_int (roundEven (q / 2 powi (ilog2 q - 52))) * 2 powi (ilog2 q - 52))
       \<and> \<bar>of_int (roundEven (q / 2 powi (ilog2 q - 52))) * 2 powi (ilog2 q - 52) - q\<bar>
           \<le> 2 powi (ilog2 q - 53)"
proof -
  define e where "e = ilog2 q"
  define u :: rat where "u = 2 powi (e - 52)"
  define n where "n = roundEven (q / u)"
  define r where "r = of_int n * u"
  have u0: "0 < u" by (simp add: u_def)
  have half: "u / 2 = 2 powi (e - 53)"
    using power_int_diff [of "2::rat" "e - 52" 1] by (simp add: u_def)
  have "\<bar>of_int n - q / u\<bar> \<le> 1 / 2"
    unfolding n_def by (rule roundEven_error)
  then have "\<bar>of_int n - q / u\<bar> * u \<le> 1 / 2 * u"
    using u0 by (intro mult_right_mono) simp_all
  moreover have "\<bar>of_int n - q / u\<bar> * u = \<bar>r - q\<bar>"
  proof -
    have "(of_int n - q / u) * u = r - q"
      using u0 by (simp add: r_def left_diff_distrib)
    then have "\<bar>r - q\<bar> = \<bar>of_int n - q / u\<bar> * \<bar>u\<bar>"
      by (metis abs_mult)
    then show ?thesis using u0 by simp
  qed
  ultimately have err: "\<bar>r - q\<bar> \<le> 2 powi (e - 53)"
    using half by simp
  have qb: "\<bar>q\<bar> < 2 powi (e + 1)"
    using ilog2_bounds [OF q] by (simp add: e_def)
  have "2 powi (e - 53) \<le> (2::rat) powi (e + 1)"
    by (intro power_int_increasing) simp_all
  moreover have "(2::rat) powi (e + 1) \<le> 2 powi 1023"
    using hi by (intro power_int_increasing) (simp_all add: e_def)
  ultimately have "\<bar>r\<bar> < 2 powi 1023 + 2 powi 1023"
    using err qb by linarith
  also have "\<dots> = (2::rat) powi 1024"
    using power_int_add [of "2::rat" 1023 1] by simp
  finally have rb: "\<bar>r\<bar> < 2 powi 1024" .
  have "roundDouble q = Num r"
    using q lo rb
    by (simp add: roundDouble_def Let_def e_def [symmetric] max_def u_def [symmetric]
        n_def [symmetric] r_def [symmetric] abs_less_iff not_le)
  with err show ?thesis
    by (simp add: r_def n_def u_def e_def)
qed

lemma powi_less_cancel:
  assumes "(2::rat) powi a < 2 powi b"
  shows "a < b"
proof (rule ccontr)
  assume "\<not> a < b"
  then have "(2::rat) powi b \<le> 2 powi a"
    by (intro power_int_increasing) simp_all
  with assms show False by simp
qed

lemma ilog2_upper:
  assumes "q \<noteq> 0" "\<bar>q\<bar> < 2 powi b"
  shows "ilog2 q < b"
proof -
  have "2 powi (ilog2 q) \<le> \<bar>q\<bar>" using ilog2_bounds [OF assms(1)] by simp
  with assms(2) have "(2::rat) powi (ilog2 q) < 2 powi b" by linarith
  then show ?thesis by (rule powi_less_cancel)
qed

lemma ilog2_lower:
  assumes "q \<noteq> 0" "2 powi a \<le> \<bar>q\<bar>"
  shows "a \<le> ilog2 q"
proof -
  have "\<bar>q\<bar> < 2 powi (ilog2 q + 1)" using ilog2_bounds [OF assms(1)] by simp
  with assms(2) have "(2::rat) powi a < 2 powi (ilog2 q + 1)" by linarith
  then have "a < ilog2 q + 1" by (rule powi_less_cancel)
  then show ?thesis by simp
qed

lemma abs_of_int_less_powi:
  "\<bar>k\<bar> < 2 ^ 53 \<Longrightarrow> \<bar>of_int k :: rat\<bar> < 2 powi 53"
proof -
  assume "\<bar>k\<bar> < 2 ^ 53"
  then have "(of_int \<bar>k\<bar> :: rat) < of_int (2 ^ 53)"
    by (simp only: of_int_less_iff)
  then show ?thesis by (simp add: power_int_def)
qed

lemma roundDouble_of_int:
  assumes "\<bar>k\<bar> < 2 ^ 53"
  shows "roundDouble (of_int k) = Num (of_int k)"
proof (cases "k = 0")
  case True
  then show ?thesis by (simp add: roundDouble_def)
next
  case False
  define q :: rat where "q = of_int k"
  define e where "e = ilog2 q"
  have q0: "q \<noteq> 0" using False by (simp add: q_def)
  have "(1::rat) \<le> \<bar>q\<bar>" using False by (simp add: q_def)
  then have e0: "0 \<le> e" unfolding e_def using ilog2_lower [OF q0, of 0] by simp
  have "\<bar>q\<bar> < 2 powi 53"
    unfolding q_def using assms by (rule abs_of_int_less_powi)
  then have e52: "e \<le> 52" unfolding e_def using ilog2_upper [OF q0, of 53] by simp
  define j where "j = nat (52 - e)"
  have u: "(2::rat) powi (e - 52) = 1 / 2 ^ j"
    using e52 by (simp add: power_int_def j_def nat_diff_distrib field_simps)
  have "q / 2 powi (e - 52) = of_int (k * 2 ^ j)"
    by (simp add: u q_def)
  then have n: "roundEven (q / 2 powi (e - 52)) = k * 2 ^ j"
    by (simp only: roundEven_of_int)
  have "roundDouble q = Num (of_int (roundEven (q / 2 powi (e - 52))) * 2 powi (e - 52))"
    using roundDouble_normal [OF q0] e0 e52 unfolding e_def by simp
  then have "roundDouble q = Num (of_int (k * 2 ^ j) * 2 powi (e - 52))"
    unfolding n .
  then show ?thesis
    by (simp add: u q_def)
qed

lemma quotient_far_from_int:
  fixes X T m :: int
  assumes "T \<noteq> 0" "\<not> T dvd X"
  shows "1 / \<bar>of_int T :: rat\<bar> \<le> \<bar>of_int X / of_int T - of_int m\<bar>"
proof -
  have "X - m * T \<noteq> 0" using assms(2) by (metis dvd_triv_right eq_iff_diff_eq_0)
  then have "1 \<le> \<bar>X - m * T\<bar>" by simp
  then have "(1::rat) \<le> \<bar>of_int (X - m * T)\<bar>"
    by (metis of_int_abs of_int_1 of_int_le_iff)
  also have "(of_int (X - m * T) :: rat) = (of_int X / of_int T - of_int m) * of_int T"
    using assms(1) by (simp add: field_simps)
  finally have "1 \<le> \<bar>of_int X / of_int T - of_int m\<bar> * \<bar>of_int T :: rat\<bar>"
    by (simp add: abs_mult)
  moreover have "0 < \<bar>of_int T :: rat\<bar>" using assms(1) by simp
  ultimately show ?thesis
    by (simp add: pos_divide_le_eq)
qed

lemma roundDouble_quotient:
  fixes X T :: int
  assumes T: "T \<noteq> 0" and X53: "\<bar>X\<bar> < 2 ^ 53" and T53: "\<bar>T\<bar> < 2 ^ 53"
  shows "\<exists>r. roundDouble (of_int X / of_int T) = Num r
           \<and> \<lfloor>r\<rfloor> = \<lfloor>of_int X / of_int T :: rat\<rfloor>
           \<and> (of_int \<lfloor>r\<rfloor> = r \<longleftrightarrow> T dvd X)
           \<and> (T dvd X \<longrightarrow> r = of_int X / of_int T)"
proof (cases "T dvd X")
  case True
  then obtain m where m: "X = T * m" by (auto simp: dvd_def)
  have q: "(of_int X / of_int T :: rat) = of_int m"
    using T by (simp add: m)
  have "1 \<le> \<bar>T\<bar>" using T by linarith
  then have "1 * \<bar>m\<bar> \<le> \<bar>T\<bar> * \<bar>m\<bar>"
    by (intro mult_right_mono) simp_all
  then have "\<bar>m\<bar> < 2 ^ 53" using X53 by (simp add: m abs_mult)
  then have "roundDouble (of_int m) = Num (of_int m)"
    by (rule roundDouble_of_int)
  with True show ?thesis by (simp add: q)
next
  case False
  define q :: rat where "q = of_int X / of_int T"
  define e where "e = ilog2 q"
  define aT :: rat where "aT = \<bar>of_int T\<bar>"
  have X0: "X \<noteq> 0" using False by auto
  have q0: "q \<noteq> 0" using X0 T by (simp add: q_def)
  have "1 \<le> \<bar>T\<bar>" using T by linarith
  then have "(of_int 1 :: rat) \<le> of_int \<bar>T\<bar>" by (simp only: of_int_le_iff)
  then have aT1: "1 \<le> aT" by (simp add: aT_def)
  have aT53: "aT < 2 powi 53"
    unfolding aT_def using T53 by (rule abs_of_int_less_powi)
  have aX53: "\<bar>of_int X :: rat\<bar> < 2 powi 53"
    using X53 by (rule abs_of_int_less_powi)
  have "q * of_int T = of_int X" using T by (simp add: q_def)
  then have absq: "\<bar>q\<bar> * aT = \<bar>of_int X\<bar>"
    unfolding aT_def by (metis abs_mult)
  have far: "1 / aT \<le> \<bar>q - of_int m\<bar>" for m
    unfolding q_def aT_def by (rule quotient_far_from_int [OF T False])
  have "\<bar>q\<bar> \<le> \<bar>q\<bar> * aT"
    using aT1 by (simp add: mult_le_cancel_left1)
  then have "\<bar>q\<bar> < 2 powi 53" using absq aX53 by simp
  then have e52: "e \<le> 52" unfolding e_def using ilog2_upper [OF q0, of 53] by simp
  have "2 powi (- 53) \<le> 1 / aT"
    using aT53 aT1 by (simp add: power_int_minus_divide frac_le)
  also have "\<dots> \<le> \<bar>q\<bar>" using far [of 0] by simp
  finally have e53: "- 53 \<le> e" unfolding e_def by (rule ilog2_lower [OF q0])
  define r :: rat where "r = of_int (roundEven (q / 2 powi (e - 52))) * 2 powi (e - 52)"
  have rd: "roundDouble q = Num r" and err: "\<bar>r - q\<bar> \<le> 2 powi (e - 53)"
    using roundDouble_normal [OF q0] e52 e53 unfolding e_def r_def by simp_all
  have le: "2 powi e * aT \<le> \<bar>q\<bar> * aT"
    using ilog2_bounds [OF q0] aT1 unfolding e_def by (intro mult_right_mono) simp_all
  define P :: rat where "P = 2 powi 53"
  have lt: "2 powi e * aT < P" using le absq aX53 by (simp add: P_def)
  define p :: rat where "p = 2 powi (e - 53)"
  have P0: "0 < P" by (simp add: P_def)
  have "(2::rat) powi e = p * P"
    unfolding p_def P_def using power_int_add [of "2::rat" "e - 53" 53] by simp
  with lt have "(p * aT) * P < 1 * P"
    by (simp add: mult.assoc mult.commute mult.left_commute)
  then have "p * aT < 1"
    using P0 by (simp only: mult_less_cancel_right_pos)
  then have "2 powi (e - 53) * aT < 1" by (simp add: p_def)
  then have small: "2 powi (e - 53) < 1 / aT"
    using aT1 by (simp add: pos_less_divide_eq)
  have close: "\<bar>r - q\<bar> < \<bar>q - of_int m\<bar>" for m
    using err small far [of m] by linarith
  define f where "f = \<lfloor>q\<rfloor>"
  have fq: "of_int f \<le> q" "q < of_int f + 1" unfolding f_def by linarith+
  have lo: "of_int f < r" using close [of f] fq by linarith
  have hi: "r < of_int f + 1" using close [of "f + 1"] fq by simp
  have fl: "\<lfloor>r\<rfloor> = f" using lo hi by (simp add: floor_unique)
  have "of_int \<lfloor>r\<rfloor> \<noteq> r" using lo fl by simp
  with rd fl False show ?thesis
    by (auto simp: q_def f_def)
qed

lemma roundDouble_numeral [simp]:
  "(numeral k :: int) < 2 ^ 53 \<Longrightarrow> roundDouble (numeral k) = Num (numeral k)"
  using roundDouble_of_int [of "numeral k"] by simp

lemma roundDouble_0 [simp]: "roundDouble 0 = Num 0"
  by (simp add: roundDouble_def)

lemma roundDouble_1 [simp]: "roundDouble 1 = Num 1"
  using roundDouble_of_int [of 1] by simp

lemma js_add_safe:
  "\<bar>X + S\<bar> < 2 ^ 53 \<Longrightarrow> js_add (Num (of_int X)) (Num (of_int S)) = Num (of_int (X + S))"
  using roundDouble_of_int [of "X + S"] by simp

lemma js_sub_safe:
  "\<bar>X - S\<bar> < 2 ^ 53 \<Longrightarrow> js_sub (Num (of_int X)) (Num (of_int S)) = Num (of_int (X - S))"
  using roundDouble_of_int [of "X - S"] by (simp add: js_sub_def)

lemma js_div_safe:
  fixes X T :: int
  assumes "T \<noteq> 0" "\<bar>X\<bar> < 2 ^ 53" "\<bar>T\<bar> < 2 ^ 53"
  shows "\<exists>r. js_div (Num (of_int X)) (Num (of_int T)) = Num r
           \<and> \<lfloor>r\<rfloor> = X div T
           \<and> (isInteger r \<longleftrightarrow> T dvd X)
           \<and> (T dvd X \<longrightarrow> r = of_int X / of_int T)"
  using roundDouble_quotient [OF assms] assms(1)
  by (simp add: isInteger_def floor_divide_of_int_eq)

text \<open>
  Two roundings the exact arithmetic does not show: above \<open>2 ^ 53\<close> the sum of a position
  and 2 can be the position itself, and a quotient that is not an integer can be rounded
  to one.
\<close>

lemma roundDouble_absorbs: "roundDouble (2 ^ 54 + 2) = Num (2 ^ 54)"
proof -
  define q :: rat where "q = 2 ^ 54 + 2"
  have q0: "q \<noteq> 0" unfolding q_def by simp
  have e: "ilog2 q = 54" unfolding q_def by code_simp
  have n: "roundEven (q / 2 powi (54 - 52)) = 2 ^ 52" unfolding q_def by code_simp
  from roundDouble_normal [OF q0]
  have "roundDouble q = Num (of_int (roundEven (q / 2 powi (54 - 52))) * 2 powi (54 - 52))"
    unfolding e by simp
  then have "roundDouble q = Num (2 ^ 54)"
    unfolding n by simp
  then show ?thesis unfolding q_def .
qed

lemma roundDouble_quotient_integer: "roundDouble ((2 ^ 60 + 2 ^ 8) / 3) = Num 384307168202282432"
proof -
  define q :: rat where "q = (2 ^ 60 + 2 ^ 8) / 3"
  have q0: "q \<noteq> 0" unfolding q_def by simp
  have e: "ilog2 q = 58" unfolding q_def by code_simp
  have n: "roundEven (q / 2 powi (58 - 52)) = 6004799503160663" unfolding q_def by code_simp
  from roundDouble_normal [OF q0]
  have "roundDouble q = Num (of_int (roundEven (q / 2 powi (58 - 52))) * 2 powi (58 - 52))"
    unfolding e by simp
  then have "roundDouble q = Num 384307168202282432"
    unfolding n by simp
  then show ?thesis unfolding q_def .
qed

lemma roundDouble_absorbs_numeral:
  "roundDouble 18014398509481986 = Num 18014398509481984"
  using roundDouble_absorbs by simp

text \<open>
  Fractions with a power of two below are exact: a position half a tile, and one that is
  a sixteenth of a tile, past a tile boundary.
\<close>

lemma roundDouble_three_halves: "roundDouble (3 / 2) = Num (3 / 2)"
proof -
  define q :: rat where "q = 3 / 2"
  have q0: "q \<noteq> 0" unfolding q_def by simp
  have e: "ilog2 q = 0" unfolding q_def by code_simp
  have n: "roundEven (q / 2 powi (0 - 52)) = 3 * 2 ^ 51" unfolding q_def by code_simp
  from roundDouble_normal [OF q0]
  have "roundDouble q = Num (of_int (roundEven (q / 2 powi (0 - 52))) * 2 powi (0 - 52))"
    unfolding e by simp
  then have "roundDouble q = Num (3 / 2)"
    unfolding n by (simp add: power_int_minus_divide)
  then show ?thesis unfolding q_def .
qed

lemma roundDouble_401_16: "roundDouble (401 / 16) = Num (401 / 16)"
proof -
  define q :: rat where "q = 401 / 16"
  have q0: "q \<noteq> 0" unfolding q_def by simp
  have e: "ilog2 q = 4" unfolding q_def by code_simp
  have n: "roundEven (q / 2 powi (4 - 52)) = 401 * 2 ^ 44" unfolding q_def by code_simp
  from roundDouble_normal [OF q0]
  have "roundDouble q = Num (of_int (roundEven (q / 2 powi (4 - 52))) * 2 powi (4 - 52))"
    unfolding e by simp
  then have "roundDouble q = Num (401 / 16)"
    unfolding n by (simp add: power_int_minus_divide)
  then show ?thesis unfolding q_def .
qed

text \<open>
  A tile size of a fifth is not a value of the format; the quotient of 1 by the value
  nearest to it is rounded up to 5, where the exact quotient of 1 by a fifth is 5 and the
  exact quotient by the stored tile size lies below 5.
\<close>

lemma roundDouble_fifth: "roundDouble (1 / 5) = Num (3602879701896397 / 2 ^ 54)"
proof -
  define q :: rat where "q = 1 / 5"
  have q0: "q \<noteq> 0" unfolding q_def by simp
  have e: "ilog2 q = - 3" unfolding q_def by code_simp
  have n: "roundEven (q / 2 powi (- 3 - 52)) = 7205759403792794" unfolding q_def by code_simp
  from roundDouble_normal [OF q0]
  have "roundDouble q = Num (of_int (roundEven (q / 2 powi (- 3 - 52))) * 2 powi (- 3 - 52))"
    unfolding e by simp
  then have "roundDouble q = Num (3602879701896397 / 2 ^ 54)"
    unfolding n by (simp add: power_int_minus_divide)
  then show ?thesis unfolding q_def .
qed

lemma quotient_of_rounded_fifth:
  "js_div (Num 1) (Num (3602879701896397 / 2 ^ 54)) = Num 5"
proof -
  define q :: rat where "q = 1 / (3602879701896397 / 2 ^ 54)"
  have q0: "q \<noteq> 0" unfolding q_def by simp
  have e: "ilog2 q = 2" unfolding q_def by code_simp
  have n: "roundEven (q / 2 powi (2 - 52)) = 5 * 2 ^ 50" unfolding q_def by code_simp
  from roundDouble_normal [OF q0]
  have "roundDouble q = Num (of_int (roundEven (q / 2 powi (2 - 52))) * 2 powi (2 - 52))"
    unfolding e by simp
  then have "roundDouble q = Num 5"
    unfolding n by (simp add: power_int_minus_divide)
  then show ?thesis unfolding q_def by simp
qed

section \<open>The move step\<close>

lemma isReversal_iff: "isReversal d r \<longleftrightarrow> r = spec_opposite d"
  by (cases d; cases r) (simp_all add: isReversal_def)

lemma atIntegerCell_Num:
  "atIntegerCell (Num c) (Num r) test \<longleftrightarrow> isInteger c \<and> isInteger r \<and> test c r"
  by (simp add: atIntegerCell_def)


lemma arbitrate_fields:
  "x_p (arbitrate col row p) = x_p p" "y_p (arbitrate col row p) = y_p p"
  "speed (arbitrate col row p) = speed p" "tileSize_p (arbitrate col row p) = tileSize_p p"
  "mazeMap (arbitrate col row p) = mazeMap p"
  "requestedDirection (arbitrate col row p) = requestedDirection p"
  by (simp_all add: arbitrate_def)

lemma advance_fields:
  "direction (advance col row p) = direction p"
  "speed (advance col row p) = speed p" "tileSize_p (advance col row p) = tileSize_p p"
  "mazeMap (advance col row p) = mazeMap p"
  "requestedDirection (advance col row p) = requestedDirection p"
  by (simp_all add: advance_def split: Direction.splits)

lemma direction_move:
  "direction (move p) =
     direction (arbitrate (js_div (x_p p) (tileSize_p p)) (js_div (y_p p) (tileSize_p p)) p)"
  by (simp add: move_def Let_def advance_fields)

lemma blocked_arbitrate:
  "blocked col row (arbitrate col row p) \<longleftrightarrow>
     atIntegerCell col row
       (\<lambda>c r. truthy (wallCollision (mazeMap p) c r (direction (arbitrate col row p))))"
  by (simp add: blocked_def arbitrate_fields)

lemma advance_position:
  "x_p (advance col row p) =
     (if blocked col row p then x_p p
      else case direction p of LEFT \<Rightarrow> js_sub (x_p p) (speed p)
           | RIGHT \<Rightarrow> js_add (x_p p) (speed p) | _ \<Rightarrow> x_p p)"
  "y_p (advance col row p) =
     (if blocked col row p then y_p p
      else case direction p of UP \<Rightarrow> js_sub (y_p p) (speed p)
           | DOWN \<Rightarrow> js_add (y_p p) (speed p) | _ \<Rightarrow> y_p p)"
  by (simp_all add: advance_def split: Direction.splits)

text \<open>
  The maze, the tile size and the speed are never assigned by the player's methods; every
  constructed player has speed 2.
\<close>

lemma move_keeps:
  "speed (move p) = speed p" "tileSize_p (move p) = tileSize_p p" "mazeMap (move p) = mazeMap p"
  by (simp_all add: move_def Let_def advance_fields arbitrate_fields)

lemma newPlayer_speed: "speed (newPlayer x y ts m) = Num 2"
  by (simp add: newPlayer_def)

text \<open>
  What one tick does, for every number: the player is blocked exactly when both computed
  quotients are integers and \<open>wallCollision\<close> is truthy at that cell in the direction
  held after the arbitration; a blocked player keeps its position, and a player that is
  not blocked gets the rounded sum or difference of one coordinate and the speed.
\<close>

lemma move_step:
  "move p = advance (js_div (x_p p) (tileSize_p p)) (js_div (y_p p) (tileSize_p p))
              (arbitrate (js_div (x_p p) (tileSize_p p)) (js_div (y_p p) (tileSize_p p)) p)"
  by (simp add: move_def Let_def)


text \<open>
  Claim C1, as amended.  The coordinates, the tile size and the speed are integers, the
  tile size and the speed other than zero, all of magnitude below \<open>2 ^ 53\<close> and such
  that a coordinate plus or minus the speed stays below \<open>2 ^ 53\<close>.  Then in one tick
  of \<open>move\<close> the position stays the same exactly when both coordinates are exact
  multiples of the tile size and \<open>wallCollision\<close> reports a wall at that cell in the
  direction the player has after the arbitration.  Otherwise one coordinate changes by
  exactly the speed (y decreases for UP and increases for DOWN, x decreases for LEFT and
  increases for RIGHT) and the other coordinate stays.  A player that is not aligned on
  both axes always moves.
\<close>

theorem move_position:
  assumes x: "x_p p = Num (of_int X)" and y: "y_p p = Num (of_int Y)"
    and t: "tileSize_p p = Num (of_int T)" and s: "speed p = Num (of_int S)"
    and T0: "T \<noteq> 0" and S0: "S \<noteq> 0"
    and bX: "\<bar>X\<bar> + \<bar>S\<bar> < 2 ^ 53" and bY: "\<bar>Y\<bar> + \<bar>S\<bar> < 2 ^ 53" and bT: "\<bar>T\<bar> < 2 ^ 53"
  shows "((x_p (move p) = x_p p \<and> y_p (move p) = y_p p) \<longleftrightarrow>
            T dvd X \<and> T dvd Y
            \<and> truthy (wallCollision (mazeMap p) (of_int X / of_int T) (of_int Y / of_int T)
                 (direction (move p))))
       \<and> (\<not> (x_p (move p) = x_p p \<and> y_p (move p) = y_p p) \<longrightarrow>
            (case direction (move p) of
               UP \<Rightarrow> y_p (move p) = Num (of_int (Y - S)) \<and> x_p (move p) = x_p p
             | DOWN \<Rightarrow> y_p (move p) = Num (of_int (Y + S)) \<and> x_p (move p) = x_p p
             | LEFT \<Rightarrow> x_p (move p) = Num (of_int (X - S)) \<and> y_p (move p) = y_p p
             | RIGHT \<Rightarrow> x_p (move p) = Num (of_int (X + S)) \<and> y_p (move p) = y_p p))
       \<and> (\<not> (T dvd X \<and> T dvd Y) \<longrightarrow>
            \<not> (x_p (move p) = x_p p \<and> y_p (move p) = y_p p))"
proof -
  have X53: "\<bar>X\<bar> < 2 ^ 53" and Y53: "\<bar>Y\<bar> < 2 ^ 53" using bX bY by linarith+
  obtain cx where cx: "js_div (x_p p) (tileSize_p p) = Num cx"
    and cxi: "isInteger cx \<longleftrightarrow> T dvd X" and cxe: "T dvd X \<Longrightarrow> cx = of_int X / of_int T"
    using js_div_safe [OF T0 X53 bT] unfolding x t by blast
  obtain cy where cy: "js_div (y_p p) (tileSize_p p) = Num cy"
    and cyi: "isInteger cy \<longleftrightarrow> T dvd Y" and cye: "T dvd Y \<Longrightarrow> cy = of_int Y / of_int T"
    using js_div_safe [OF T0 Y53 bT] unfolding y t by blast
  define q where "q = arbitrate (Num cx) (Num cy) p"
  have mv: "move p = advance (Num cx) (Num cy) q"
    by (simp add: move_step cx cy q_def)
  have dir: "direction (move p) = direction q"
    by (simp add: mv advance_fields)
  have q_fields: "x_p q = Num (of_int X)" "y_p q = Num (of_int Y)" "speed q = Num (of_int S)"
    by (simp_all add: q_def arbitrate_fields x y s)
  have blk: "blocked (Num cx) (Num cy) q \<longleftrightarrow>
      T dvd X \<and> T dvd Y
      \<and> truthy (wallCollision (mazeMap p) (of_int X / of_int T) (of_int Y / of_int T) (direction q))"
    unfolding q_def blocked_arbitrate atIntegerCell_Num
    using cxi cyi cxe cye by auto
  have add: "js_add (Num (of_int X)) (Num (of_int S)) = Num (of_int (X + S))"
    "js_add (Num (of_int Y)) (Num (of_int S)) = Num (of_int (Y + S))"
    using bX bY by (intro js_add_safe; linarith)+
  have sub: "js_sub (Num (of_int X)) (Num (of_int S)) = Num (of_int (X - S))"
    "js_sub (Num (of_int Y)) (Num (of_int S)) = Num (of_int (Y - S))"
    using bX bY by (intro js_sub_safe; linarith)+
  have same: "(x_p (move p) = x_p p \<and> y_p (move p) = y_p p) \<longleftrightarrow> blocked (Num cx) (Num cy) q"
    using S0 by (cases "direction q") (simp_all add: mv advance_position q_fields add sub x y del: js_add.simps)
  have step: "\<not> blocked (Num cx) (Num cy) q \<Longrightarrow>
      (case direction q of
         UP \<Rightarrow> y_p (move p) = Num (of_int (Y - S)) \<and> x_p (move p) = x_p p
       | DOWN \<Rightarrow> y_p (move p) = Num (of_int (Y + S)) \<and> x_p (move p) = x_p p
       | LEFT \<Rightarrow> x_p (move p) = Num (of_int (X - S)) \<and> y_p (move p) = y_p p
       | RIGHT \<Rightarrow> x_p (move p) = Num (of_int (X + S)) \<and> y_p (move p) = y_p p)"
    by (cases "direction q") (simp_all add: mv advance_position q_fields add sub x y del: js_add.simps)
  show ?thesis
    unfolding dir same using blk step by auto
qed

text \<open>
  At the aligned cell (2, 1) of the demo maze, facing RIGHT with nothing to the right, the
  player advances from x = 64 to x = 66.
\<close>

theorem move_position_witness:
  "x_p (move (newPlayer (Num 64) (Num 32) (Num 32) demoMaze)) = Num 66
   \<and> y_p (move (newPlayer (Num 64) (Num 32) (Num 32) demoMaze)) = Num 32
   \<and> \<not> truthy (wallCollision demoMaze 2 1 RIGHT)"
  using move_position [of "newPlayer (Num 64) (Num 32) (Num 32) demoMaze" 64 32 32 2]
  by (simp add: move_defs demoMaze_eq)

text \<open>
  Without the bound the claim fails: at \<open>x = 2 ^ 54\<close>, a multiple of the tile size 32,
  with no wall reported to the right, the sum of the position and the speed 2 is rounded
  to the position, so the player faces RIGHT unblocked and neither coordinate changes.
\<close>

theorem move_position_counterexample:
  "(32 :: int) dvd 2 ^ 54 \<and> (32 :: int) dvd 0
   \<and> js_div (Num (2 ^ 54)) (Num 32) = Num (2 ^ 49) \<and> js_div (Num 0) (Num 32) = Num 0
   \<and> \<not> truthy (wallCollision demoMaze (2 ^ 49) 0 RIGHT)
   \<and> direction (move (newPlayer (Num (2 ^ 54)) (Num 0) (Num 32) demoMaze)) = RIGHT
   \<and> x_p (move (newPlayer (Num (2 ^ 54)) (Num 0) (Num 32) demoMaze)) = Num (2 ^ 54)
   \<and> y_p (move (newPlayer (Num (2 ^ 54)) (Num 0) (Num 32) demoMaze)) = Num 0"
  by (simp add: move_defs demoMaze_eq roundDouble_absorbs_numeral)

text \<open>
  The blocked case: at the aligned cell (1, 1), turned to the LEFT by a reversal, the
  player faces the wall of column 0 and stays where it is.
\<close>

lemma boundary_block:
  "direction (move (changeDirection LEFT (newPlayer (Num 32) (Num 32) (Num 32) demoMaze))) = LEFT
   \<and> truthy (wallCollision demoMaze 1 1 LEFT)
   \<and> x_p (move (changeDirection LEFT (newPlayer (Num 32) (Num 32) (Num 32) demoMaze))) = Num 32
   \<and> y_p (move (changeDirection LEFT (newPlayer (Num 32) (Num 32) (Num 32) demoMaze))) = Num 32"
  by (simp add: move_defs demoMaze_eq)



text \<open>
  The scenario of the specification: half a tile to the right of that cell the same
  request is not honoured, and the player keeps moving right with the request buffered.
\<close>

lemma turn_waits_mid_tile:
  "direction (move (changeDirection UP (newPlayer (Num 48) (Num 32) (Num 32) demoMaze))) = RIGHT
   \<and> requestedDirection (move (changeDirection UP (newPlayer (Num 48) (Num 32) (Num 32) demoMaze))) = UP
   \<and> x_p (move (changeDirection UP (newPlayer (Num 48) (Num 32) (Num 32) demoMaze))) = Num 50"
  by (simp add: move_defs demoMaze_eq roundDouble_three_halves)

text \<open>
  Beyond \<open>2 ^ 53\<close> the computed quotient can be an integer where the exact one is not:
  at \<open>x = 2 ^ 60 + 2 ^ 8\<close> with tile size 3 the turn is taken.
\<close>

lemma turn_taken_on_rounded_quotient:
  "\<not> (3 :: int) dvd (2 ^ 60 + 2 ^ 8)
   \<and> js_div (Num (2 ^ 60 + 2 ^ 8)) (Num 3) = Num 384307168202282432
   \<and> direction (move (changeDirection UP \<lparr>x_p = Num (2 ^ 60 + 2 ^ 8), y_p = Num 3, speed = Num 2,
        direction = RIGHT, requestedDirection = RIGHT, tileSize_p = Num 3, mazeMap = demoMaze\<rparr>)) = UP"
  using roundDouble_quotient_integer
  by (simp add: move_defs demoMaze_eq)

text \<open>
  Claim C3.  In a tick where the requested direction is the reversal of the direction, the
  direction becomes the requested one, whatever the position and whatever the maze: the
  same holds after replacing the maze and both coordinates by any others, so neither the
  alignment nor any answer of \<open>wallCollision\<close> enters the decision.
\<close>

theorem reversal_immediate:
  assumes "requestedDirection p = spec_opposite (direction p)"
  shows "direction (move p) = requestedDirection p
       \<and> direction (move (p\<lparr>mazeMap := m', x_p := x', y_p := y'\<rparr>)) = requestedDirection p"
proof -
  have "isReversal (direction p) (requestedDirection p)"
    using assms by (simp add: isReversal_iff)
  then show ?thesis
    by (simp add: direction_move arbitrate_def)
qed

text \<open>Mid-tile at x = 48, facing RIGHT, a request for LEFT turns the player at once.\<close>

theorem reversal_immediate_witness:
  "requestedDirection (changeDirection LEFT (newPlayer (Num 48) (Num 32) (Num 32) demoMaze))
     = spec_opposite (direction (changeDirection LEFT (newPlayer (Num 48) (Num 32) (Num 32) demoMaze)))
   \<and> direction (move (changeDirection LEFT (newPlayer (Num 48) (Num 32) (Num 32) demoMaze))) = LEFT
   \<and> x_p (move (changeDirection LEFT (newPlayer (Num 48) (Num 32) (Num 32) demoMaze))) = Num 46"
  using reversal_immediate [where p = "changeDirection LEFT (newPlayer (Num 48) (Num 32) (Num 32) demoMaze)"
      and m' = demoMaze and x' = "Num 0" and y' = "Num 0"]
  by (simp add: move_defs demoMaze_eq roundDouble_three_halves)

section \<open>The tile queries\<close>

lemmas query_defs =
  getTile_def isEndPosition_def outOfBounds_def readCell_def rowAnd_def js_index_def nth_opt_def

lemma js_index_of_int:
  "js_index xs (of_int k) = (if 0 \<le> k then nth_opt xs (nat k) else None)"
  by (simp add: js_index_def)

lemma js_index_of_int_plus1:
  "js_index xs (of_int k + 1) = (if 0 \<le> k + 1 then nth_opt xs (nat (k + 1)) else None)"
  using js_index_of_int [of xs "k + 1"] by simp

lemma js_index_of_int_minus1:
  "js_index xs (of_int k - 1) = (if 0 \<le> k - 1 then nth_opt xs (nat (k - 1)) else None)"
  using js_index_of_int [of xs "k - 1"] by simp

lemma outOfBounds_int:
  "outOfBounds m (of_int c) (of_int r) =
     Inr (r < 0 \<or> c < 0 \<or> int (length (map_m m)) \<le> r \<or> int (length (map_m m ! 0)) \<le> c)"
  by (cases "map_m m") (auto simp: outOfBounds_def)

lemma readCell_int:
  "0 \<le> r \<Longrightarrow> r < int (length (map_m m)) \<Longrightarrow> 0 \<le> c \<Longrightarrow>
   readCell m (of_int c) (of_int r) =
     Inr (case cell (map_m m) (nat r) (nat c) of None \<Rightarrow> JUndefined | Some t \<Rightarrow> JNum t)"
  by (simp add: readCell_def js_index_of_int cell_def nth_opt_def)

lemma getTile_int:
  "getTile m (of_int c) (of_int r) =
     Inr (if r < 0 \<or> c < 0 \<or> int (length (map_m m)) \<le> r \<or> int (length (map_m m ! 0)) \<le> c
          then JNum (- 1)
          else case cell (map_m m) (nat r) (nat c) of None \<Rightarrow> JUndefined | Some t \<Rightarrow> JNum t)"
  by (simp add: getTile_def outOfBounds_int readCell_int)

lemma isEndPosition_int:
  "isEndPosition m (of_int c) (of_int r) =
     Inr (0 \<le> r \<and> 0 \<le> c \<and> r < int (length (map_m m)) \<and> c < int (length (map_m m ! 0))
          \<and> cell (map_m m) (nat r) (nat c) = Some 3)"
proof (cases "r < 0 \<or> c < 0 \<or> int (length (map_m m)) \<le> r \<or> int (length (map_m m ! 0)) \<le> c")
  case True
  then show ?thesis
    by (auto simp: isEndPosition_def outOfBounds_int)
next
  case False
  then show ?thesis
    by (auto simp: isEndPosition_def outOfBounds_int readCell_int split: option.splits)
qed

lemma getTile_out_of_bounds:
  "row < 0 \<or> col < 0 \<or> of_nat (length (map_m m)) \<le> row \<or> of_nat (length (map_m m ! 0)) \<le> col
   \<Longrightarrow> getTile m col row = Inr (JNum (- 1)) \<and> isEndPosition m col row = Inr False"
  by (cases "map_m m") (auto simp: getTile_def isEndPosition_def outOfBounds_def)

lemma readCell_row_int:
  "0 \<le> r \<Longrightarrow> r < int (length (map_m m)) \<Longrightarrow> \<exists>v. readCell m col (of_int r) = Inr v"
  by (simp add: readCell_def js_index_of_int nth_opt_def)

lemma outOfBounds_row_int:
  "outOfBounds m col (of_int r) = Inr False \<Longrightarrow> 0 \<le> r \<and> r < int (length (map_m m))"
  by (auto simp: outOfBounds_def split: if_splits)

lemma outOfBounds_total:
  "\<exists>b. outOfBounds m col row = Inr b"
  by (cases "map_m m") (auto simp: outOfBounds_def)

lemma getTile_no_throw:
  assumes "isInteger row"
  shows "(\<exists>v. getTile m col row = Inr v) \<and> (\<exists>b. isEndPosition m col row = Inr b)"
proof -
  obtain r :: int where r: "row = of_int r"
    using assms unfolding isInteger_def by metis
  obtain b where b: "outOfBounds m col row = Inr b"
    using outOfBounds_total by blast
  show ?thesis
  proof (cases b)
    case True
    with b show ?thesis by (auto simp: getTile_def isEndPosition_def)
  next
    case False
    with b r have "outOfBounds m col (of_int r) = Inr False"
      by simp
    then have "0 \<le> r \<and> r < int (length (map_m m))"
      by (rule outOfBounds_row_int)
    then obtain v where "readCell m col row = Inr v"
      using readCell_row_int [of r m col] r by auto
    with b False show ?thesis by (auto simp: getTile_def isEndPosition_def)
  qed
qed


lemma gameMaze_rowsWithinFirst: "rowsWithinFirst (newMazeMap 32)"
  by (simp add: gameMaze_eq rowsWithinFirst_def)

text \<open>
  Claim C9, as amended.  A query with the row outside \<open>[0, rows)\<close> or the column
  outside \<open>[0, cols)\<close>, where \<open>cols\<close> is the length of row 0, answers the
  sentinel -1 (\<open>getTile\<close>) and false (\<open>isEndPosition\<close>).  At an integer cell
  inside these bounds whose column lies inside the queried row, \<open>getTile\<close> answers the
  stored tile and \<open>isEndPosition\<close> answers whether that tile is the exit code 3.  At an
  integer cell inside the bounds whose column lies past the end of the queried row,
  \<open>getTile\<close> answers \<open>undefined\<close> and \<open>isEndPosition\<close> answers false.
  With an integer row neither query raises an error.
\<close>

theorem tile_queries_bounds:
  "(row < 0 \<or> col < 0 \<or> of_nat (length (map_m m)) \<le> row \<or> of_nat (length (map_m m ! 0)) \<le> col
      \<longrightarrow> getTile m col row = Inr (JNum (- 1)) \<and> isEndPosition m col row = Inr False)
   \<and> (0 \<le> r \<and> r < int (length (map_m m)) \<and> 0 \<le> c \<and> c < int (length (map_m m ! 0))
        \<and> c < int (length (map_m m ! nat r))
      \<longrightarrow> getTile m (of_int c) (of_int r) = Inr (JNum (map_m m ! nat r ! nat c))
          \<and> isEndPosition m (of_int c) (of_int r) = Inr (map_m m ! nat r ! nat c = 3))
   \<and> (0 \<le> r \<and> r < int (length (map_m m)) \<and> 0 \<le> c \<and> c < int (length (map_m m ! 0))
        \<and> int (length (map_m m ! nat r)) \<le> c
      \<longrightarrow> getTile m (of_int c) (of_int r) = Inr JUndefined
          \<and> isEndPosition m (of_int c) (of_int r) = Inr False)
   \<and> (isInteger row
      \<longrightarrow> (\<exists>v. getTile m col row = Inr v) \<and> (\<exists>b. isEndPosition m col row = Inr b))"
proof (intro conjI impI)
  assume "row < 0 \<or> col < 0 \<or> of_nat (length (map_m m)) \<le> row \<or> of_nat (length (map_m m ! 0)) \<le> col"
  then show "getTile m col row = Inr (JNum (- 1))" "isEndPosition m col row = Inr False"
    using getTile_out_of_bounds by blast+
next
  assume "0 \<le> r \<and> r < int (length (map_m m)) \<and> 0 \<le> c \<and> c < int (length (map_m m ! 0))
        \<and> c < int (length (map_m m ! nat r))"
  then show "getTile m (of_int c) (of_int r) = Inr (JNum (map_m m ! nat r ! nat c))"
    "isEndPosition m (of_int c) (of_int r) = Inr (map_m m ! nat r ! nat c = 3)"
    by (auto simp: getTile_int isEndPosition_int cell_def nth_opt_def)
next
  assume "0 \<le> r \<and> r < int (length (map_m m)) \<and> 0 \<le> c \<and> c < int (length (map_m m ! 0))
        \<and> int (length (map_m m ! nat r)) \<le> c"
  then show "getTile m (of_int c) (of_int r) = Inr JUndefined"
    "isEndPosition m (of_int c) (of_int r) = Inr False"
    by (auto simp: getTile_int isEndPosition_int cell_def nth_opt_def)
next
  assume "isInteger row"
  then show "\<exists>v. getTile m col row = Inr v" "\<exists>b. isEndPosition m col row = Inr b"
    using getTile_no_throw by blast+
qed

text \<open>
  The claim as stated fails on the maze of the game: the cell in column 25 of row 10 is
  inside the bounds 31 by 28, row 10 has only 23 tiles, and \<open>getTile\<close> answers
  neither a stored tile nor the sentinel.
\<close>

theorem tile_queries_counterexample:
  "length (map_m (newMazeMap 32)) = 31 \<and> length (map_m (newMazeMap 32) ! 0) = 28
   \<and> length (map_m (newMazeMap 32) ! 10) = 23
   \<and> getTile (newMazeMap 32) 25 10 = Inr JUndefined"
  by (simp add: gameMaze_eq query_defs)

text \<open>With a fractional row inside the bounds both queries raise a \<open>TypeError\<close>.\<close>

lemma getTile_fractional_row_throws:
  "getTile (newMazeMap 32) 0 (3 / 2) = Inl TypeError
   \<and> isEndPosition (newMazeMap 32) 0 (3 / 2) = Inl TypeError"
  by (simp add: gameMaze_eq query_defs)

text \<open>
  On the maze of the game: a row past the grid, the cell of the end glyph, and the cell past
  the end of row 10.
\<close>

theorem tile_queries_bounds_witness:
  "getTile (newMazeMap 32) 26 31 = Inr (JNum (- 1))
   \<and> isEndPosition (newMazeMap 32) 26 31 = Inr False
   \<and> getTile (newMazeMap 32) 26 23 = Inr (JNum 3)
   \<and> isEndPosition (newMazeMap 32) 26 23 = Inr True
   \<and> getTile (newMazeMap 32) 25 10 = Inr JUndefined
   \<and> isEndPosition (newMazeMap 32) 25 10 = Inr False"
  using tile_queries_bounds [of 31 26 "newMazeMap 32" 23 26]
    tile_queries_bounds [of 31 26 "newMazeMap 32" 10 25]
  by (simp add: gameMaze_eq)

section \<open>The fallback scan and the length of row 0\<close>

lemma nth_opt_update:
  "nth_opt (xs[i := v]) j = (if j = i \<and> i < length xs then Some v else nth_opt xs j)"
  by (auto simp: nth_opt_def nth_list_update)

lemma cell_update:
  "cell (g[y := (g ! y)[x := v]]) y' x' =
     (if y' = y \<and> x' = x \<and> y < length g \<and> x < length (g ! y) then Some v else cell g y' x')"
  by (auto simp: cell_def nth_opt_update) (simp_all add: nth_opt_def)

lemma row_length_update:
  "length (g[y := (g ! y)[x := v]] ! i) = length (g ! i)"
  by (cases "y < length g") (auto simp: nth_list_update list_update_beyond)

lemma scanCols_row_length:
  "length (map_m (scanCols m y n) ! i) = length (map_m m ! i)"
  by (induction n) (simp_all add: row_length_update)

lemma scanCols_length: "length (map_m (scanCols m y n)) = length (map_m m)"
  by (induction n) simp_all

lemma scanCols_tileSize: "tileSize (scanCols m y n) = tileSize m"
  by (induction n) simp_all

lemma scanCols_cell_beyond:
  "n \<le> x' \<Longrightarrow> cell (map_m (scanCols m y n)) y' x' = cell (map_m m) y' x'"
  by (induction n) (simp_all add: cell_update)

lemma scanRows_row_length:
  "length (map_m (scanRows m w n) ! i) = length (map_m m ! i)"
  by (induction n arbitrary: m) (simp_all add: Let_def scanCols_row_length)

lemma scanRows_cell_beyond:
  "w \<le> x' \<Longrightarrow> cell (map_m (scanRows m w n)) y' x' = cell (map_m m) y' x'"
  by (induction n arbitrary: m) (simp_all add: Let_def scanCols_cell_beyond)

lemma loadMap_cell_beyond:
  "length (map_m (parseLayout ts s) ! 0) \<le> x \<Longrightarrow>
   cell (map_m (loadMap ts s)) y x = cell (map_m (parseLayout ts s)) y x"
  by (simp add: loadMap_def Let_def scanRows_cell_beyond)

lemma raggedParse_eq:
  "parseLayout 32 raggedLayout = \<lparr>map_m = [[1, 1], [1], [1, 1, 1, 0]], tileSize = 32,
                  startX = 0, startY = 0, endX = 0, endY = 0\<rparr>"
  by (simp add: raggedLayout_def load_defs glyph_defs)

text \<open>
  Claim C10.  Every column test uses the length of row 0.  At an integer cell of a row
  shorter than row 0, with the column past the end of that row but inside the length of
  row 0, the bounds test passes and \<open>getTile\<close> answers \<open>undefined\<close>, which is
  neither the sentinel nor a tile code; \<open>isEndPosition\<close> answers false.  A column at
  or past the length of row 0 is answered with the sentinel and with false whatever the
  row stores there, and the fallback scan leaves every such cell as it was parsed.
\<close>

theorem first_row_bounds:
  "(0 \<le> r \<and> r < int (length (map_m m))
      \<and> int (length (map_m m ! nat r)) \<le> c \<and> c < int (length (map_m m ! 0))
    \<longrightarrow> getTile m (of_int c) (of_int r) = Inr JUndefined
        \<and> isEndPosition m (of_int c) (of_int r) = Inr False)
   \<and> (int (length (map_m m ! 0)) \<le> c
    \<longrightarrow> getTile m (of_int c) (of_int r) = Inr (JNum (- 1))
        \<and> isEndPosition m (of_int c) (of_int r) = Inr False)
   \<and> (w \<le> x
    \<longrightarrow> cell (map_m (scanRows m w n)) y x = cell (map_m m) y x)
   \<and> (length (map_m (parseLayout ts s) ! 0) \<le> x
    \<longrightarrow> cell (map_m (loadMap ts s)) y x = cell (map_m (parseLayout ts s)) y x)"
proof (intro conjI impI)
  assume "0 \<le> r \<and> r < int (length (map_m m))
      \<and> int (length (map_m m ! nat r)) \<le> c \<and> c < int (length (map_m m ! 0))"
  then show "getTile m (of_int c) (of_int r) = Inr JUndefined"
    "isEndPosition m (of_int c) (of_int r) = Inr False"
    by (auto simp: getTile_int isEndPosition_int cell_def nth_opt_def)
next
  assume "int (length (map_m m ! 0)) \<le> c"
  then show "getTile m (of_int c) (of_int r) = Inr (JNum (- 1))"
    "isEndPosition m (of_int c) (of_int r) = Inr False"
    by (simp_all add: getTile_int isEndPosition_int)
next
  assume "w \<le> x"
  then show "cell (map_m (scanRows m w n)) y x = cell (map_m m) y x"
    by (rule scanRows_cell_beyond)
next
  assume "length (map_m (parseLayout ts s) ! 0) \<le> x"
  then show "cell (map_m (loadMap ts s)) y x = cell (map_m (parseLayout ts s)) y x"
    by (rule loadMap_cell_beyond)
qed

text \<open>
  The ragged maze: row 1 has no column 1, and the empty path in column 3 of row 2 is
  neither seen by the queries nor promoted by the fallback, which finds no exit at all.
\<close>

theorem first_row_bounds_witness:
  "getTile raggedMaze 1 1 = Inr JUndefined
   \<and> isEndPosition raggedMaze 1 1 = Inr False
   \<and> cell (map_m raggedMaze) 2 3 = Some 0
   \<and> getTile raggedMaze 3 2 = Inr (JNum (- 1))
   \<and> isEndPosition raggedMaze 3 2 = Inr False
   \<and> cell (map_m (loadMap 32 raggedLayout)) 2 3 = cell (map_m (parseLayout 32 raggedLayout)) 2 3
   \<and> getEndPosition raggedMaze = (0, 0)"
  using first_row_bounds [where r = 1 and c = 1 and m = raggedMaze and x = 3 and y = 2
        and ts = 32 and s = raggedLayout and w = 2 and n = 3]
    first_row_bounds [where r = 2 and c = 3 and m = raggedMaze and x = 3 and y = 2
        and ts = 32 and s = raggedLayout and w = 2 and n = 3]
  by (simp add: raggedMaze_eq raggedParse_eq cell_def nth_opt_def getEndPosition_def)

section \<open>Wall collision\<close>







text \<open>
  Why RIGHT needs the proviso: in the ragged maze the wall in column 2 of row 2 is seen by
  \<open>wallCollision\<close> from cell (1, 2), while \<open>getTile\<close> answers the sentinel there.
\<close>

lemma wallCollision_longer_row:
  "truthy (wallCollision raggedMaze 1 2 RIGHT) \<and> getTile raggedMaze 2 2 = Inr (JNum (- 1))"
  by (simp add: raggedMaze_eq query_defs)

section \<open>The win check\<close>

lemma rowsWithinFirst_nth:
  "rowsWithinFirst m \<Longrightarrow> i < length (map_m m) \<Longrightarrow> length (map_m m ! i) \<le> length (map_m m ! 0)"
  by (simp add: rowsWithinFirst_def list_all_length)

lemma isEndPosition_exitSeen:
  "isEndPosition m (of_int c) (of_int r) = Inr (exitSeen m c r)"
  unfolding isEndPosition_int exitSeen_def exitAt_def
  by (auto simp: cell_def nth_opt_def split: if_splits)

lemma isEndPositionN_Num: "isEndPositionN m (Num c) (Num r) = isEndPosition m c r"
  by (auto simp: isEndPositionN_def isEndPosition_def outOfBoundsN_def outOfBounds_def
      readCell_def split: list.splits option.splits bool.splits sum.splits)

lemma isEndPositionN_exitSeen:
  "isEndPositionN m (Num (of_int c)) (Num (of_int r)) = Inr (exitSeen m c r)"
  by (simp add: isEndPositionN_Num isEndPosition_exitSeen)

lemma js_floor_Num: "js_floor (Num q) = Num (of_int \<lfloor>q\<rfloor>)"
  by simp

lemma js_succ_pred:
  assumes "\<bar>k\<bar> + 1 < 2 ^ 53"
  shows "js_add (Num (of_int k)) (Num 1) = Num (of_int (k + 1))"
    and "js_sub (Num (of_int k)) (Num 1) = Num (of_int (k - 1))"
proof -
  have "\<bar>k + 1\<bar> < 2 ^ 53" "\<bar>k - 1\<bar> < 2 ^ 53"
    using assms by linarith+
  then show "js_add (Num (of_int k)) (Num 1) = Num (of_int (k + 1))"
    and "js_sub (Num (of_int k)) (Num 1) = Num (of_int (k - 1))"
    using js_add_safe [of k 1] js_sub_safe [of k 1] by simp_all
qed

lemma checkWinCondition_exitSeen:
  assumes qx: "js_div (x_p p) (tileSize_p p) = Num qx"
    and qy: "js_div (y_p p) (tileSize_p p) = Num qy"
    and bx: "\<bar>\<lfloor>qx\<rfloor>\<bar> + 1 < 2 ^ 53" and "by": "\<bar>\<lfloor>qy\<rfloor>\<bar> + 1 < 2 ^ 53"
  shows "checkWinCondition p =
     Inr (exitSeen (mazeMap p) \<lfloor>qx\<rfloor> \<lfloor>qy\<rfloor>
          \<or> exitSeen (mazeMap p) (\<lfloor>qx\<rfloor> + 1) \<lfloor>qy\<rfloor>
          \<or> exitSeen (mazeMap p) (\<lfloor>qx\<rfloor> - 1) \<lfloor>qy\<rfloor>
          \<or> exitSeen (mazeMap p) \<lfloor>qx\<rfloor> (\<lfloor>qy\<rfloor> + 1)
          \<or> exitSeen (mazeMap p) \<lfloor>qx\<rfloor> (\<lfloor>qy\<rfloor> - 1))"
  unfolding checkWinCondition_def Let_def qx qy js_floor_Num
    js_succ_pred [OF bx] js_succ_pred [OF "by"] isEndPositionN_exitSeen
  by (simp split: bool.splits)

lemma exitSeen_exitAt:
  assumes "rowsWithinFirst m"
  shows "exitSeen m c r = exitAt m c r"
proof -
  have "nat c < length (map_m m ! 0)"
    if "nat r < length (map_m m)" "nat c < length (map_m m ! nat r)"
    using rowsWithinFirst_nth [OF assms that(1)] that(2) by simp
  then show ?thesis
    unfolding exitSeen_def exitAt_def
    by (auto simp: cell_def nth_opt_def split: if_splits)
qed

lemma cell_exit_iff: "cell g y x = Some 3 \<longleftrightarrow> (x, y) \<in> set (exitCells g)"
  by (auto simp: cell_def nth_opt_def exitCells_def)

lemma exitAt_iff:
  "exitAt m c r \<longleftrightarrow> 0 \<le> c \<and> 0 \<le> r \<and> (nat c, nat r) \<in> set (exitCells (map_m m))"
  by (simp add: exitAt_def cell_exit_iff)

lemma demoMaze_exit: "exitAt demoMaze c r \<longleftrightarrow> c = 2 \<and> r = 1"
proof -
  have "exitCells (map_m demoMaze) = [(2, 1)]"
    by (simp add: demoMaze_eq exitCells_def upt_rec [of _ "numeral k" for k] upt_rec [of _ "Suc k" for k])
  then show ?thesis
    by (auto simp: exitAt_iff)
qed

lemma gameMaze_exit: "exitAt (newMazeMap 32) c r \<longleftrightarrow> c = 26 \<and> r = 23"
proof -
  have "exitCells (map_m (newMazeMap 32)) = [(26, 23)]"
    unfolding gameMaze_eq by code_simp
  then show ?thesis
    by (auto simp: exitAt_iff)
qed

lemma demoMaze_rowsWithinFirst: "rowsWithinFirst demoMaze"
  by (simp add: demoMaze_eq rowsWithinFirst_def)

text \<open>
  Claim C4, as amended.  Let the two quotients \<open>x / tileSize\<close> and \<open>y / tileSize\<close>
  the program computes be finite, with floors \<open>col\<close> and \<open>row\<close> of magnitude
  below \<open>2 ^ 53 - 1\<close>.  Then \<open>checkWinCondition\<close> raises no error and answers true
  exactly when the cell \<open>(col, row)\<close> or one of its four orthogonal neighbours stores
  the exit in a column inside the length of row 0.  In a grid none of whose rows is longer
  than row 0, as is the maze of the game (\<open>gameMaze_rowsWithinFirst\<close>), that is: exactly
  when one of the five cells is the Exit tile.  When the only exit the queries can see is
  diagonally adjacent, the answer is false.  For integer coordinates and an integer tile
  size other than zero, of magnitude below \<open>2 ^ 53\<close>, \<open>col\<close> and \<open>row\<close> are
  the floored exact quotients.  The method assigns to no field, so player and grid are
  the same afterwards.
\<close>

theorem win_condition:
  assumes qx: "js_div (x_p p) (tileSize_p p) = Num qx"
    and qy: "js_div (y_p p) (tileSize_p p) = Num qy"
    and bx: "\<bar>\<lfloor>qx\<rfloor>\<bar> + 1 < 2 ^ 53" and "by": "\<bar>\<lfloor>qy\<rfloor>\<bar> + 1 < 2 ^ 53"
  shows "checkWinCondition p =
     Inr (exitSeen (mazeMap p) \<lfloor>qx\<rfloor> \<lfloor>qy\<rfloor>
          \<or> exitSeen (mazeMap p) (\<lfloor>qx\<rfloor> + 1) \<lfloor>qy\<rfloor>
          \<or> exitSeen (mazeMap p) (\<lfloor>qx\<rfloor> - 1) \<lfloor>qy\<rfloor>
          \<or> exitSeen (mazeMap p) \<lfloor>qx\<rfloor> (\<lfloor>qy\<rfloor> + 1)
          \<or> exitSeen (mazeMap p) \<lfloor>qx\<rfloor> (\<lfloor>qy\<rfloor> - 1))
     \<and> (rowsWithinFirst (mazeMap p) \<longrightarrow>
          checkWinCondition p =
            Inr (exitAt (mazeMap p) \<lfloor>qx\<rfloor> \<lfloor>qy\<rfloor>
                 \<or> exitAt (mazeMap p) (\<lfloor>qx\<rfloor> + 1) \<lfloor>qy\<rfloor>
                 \<or> exitAt (mazeMap p) (\<lfloor>qx\<rfloor> - 1) \<lfloor>qy\<rfloor>
                 \<or> exitAt (mazeMap p) \<lfloor>qx\<rfloor> (\<lfloor>qy\<rfloor> + 1)
                 \<or> exitAt (mazeMap p) \<lfloor>qx\<rfloor> (\<lfloor>qy\<rfloor> - 1)))
     \<and> ((\<forall>c r. exitSeen (mazeMap p) c r \<longrightarrow> c = ec \<and> r = er)
          \<and> \<bar>ec - \<lfloor>qx\<rfloor>\<bar> = 1 \<and> \<bar>er - \<lfloor>qy\<rfloor>\<bar> = 1
         \<longrightarrow> checkWinCondition p = Inr False)
     \<and> (x_p p = Num (of_int X) \<and> y_p p = Num (of_int Y) \<and> tileSize_p p = Num (of_int T)
          \<and> T \<noteq> 0 \<and> \<bar>X\<bar> < 2 ^ 53 \<and> \<bar>Y\<bar> < 2 ^ 53 \<and> \<bar>T\<bar> < 2 ^ 53
         \<longrightarrow> \<lfloor>qx\<rfloor> = X div T \<and> \<lfloor>qy\<rfloor> = Y div T)"
proof (intro conjI impI)
  note win = checkWinCondition_exitSeen [OF qx qy bx "by"]
  show "checkWinCondition p =
     Inr (exitSeen (mazeMap p) \<lfloor>qx\<rfloor> \<lfloor>qy\<rfloor>
          \<or> exitSeen (mazeMap p) (\<lfloor>qx\<rfloor> + 1) \<lfloor>qy\<rfloor>
          \<or> exitSeen (mazeMap p) (\<lfloor>qx\<rfloor> - 1) \<lfloor>qy\<rfloor>
          \<or> exitSeen (mazeMap p) \<lfloor>qx\<rfloor> (\<lfloor>qy\<rfloor> + 1)
          \<or> exitSeen (mazeMap p) \<lfloor>qx\<rfloor> (\<lfloor>qy\<rfloor> - 1))"
    by (rule win)
  {
    assume "rowsWithinFirst (mazeMap p)"
    then show "checkWinCondition p =
            Inr (exitAt (mazeMap p) \<lfloor>qx\<rfloor> \<lfloor>qy\<rfloor>
                 \<or> exitAt (mazeMap p) (\<lfloor>qx\<rfloor> + 1) \<lfloor>qy\<rfloor>
                 \<or> exitAt (mazeMap p) (\<lfloor>qx\<rfloor> - 1) \<lfloor>qy\<rfloor>
                 \<or> exitAt (mazeMap p) \<lfloor>qx\<rfloor> (\<lfloor>qy\<rfloor> + 1)
                 \<or> exitAt (mazeMap p) \<lfloor>qx\<rfloor> (\<lfloor>qy\<rfloor> - 1))"
      unfolding win by (simp add: exitSeen_exitAt)
  }
  {
    assume a: "(\<forall>c r. exitSeen (mazeMap p) c r \<longrightarrow> c = ec \<and> r = er)
          \<and> \<bar>ec - \<lfloor>qx\<rfloor>\<bar> = 1 \<and> \<bar>er - \<lfloor>qy\<rfloor>\<bar> = 1"
    then have only: "\<And>c r. exitSeen (mazeMap p) c r \<Longrightarrow> c = ec \<and> r = er"
      by blast
    from a show "checkWinCondition p = Inr False"
      unfolding win by (auto dest!: only)
  }
  {
    assume h: "x_p p = Num (of_int X) \<and> y_p p = Num (of_int Y) \<and> tileSize_p p = Num (of_int T)
          \<and> T \<noteq> 0 \<and> \<bar>X\<bar> < 2 ^ 53 \<and> \<bar>Y\<bar> < 2 ^ 53 \<and> \<bar>T\<bar> < 2 ^ 53"
    show "\<lfloor>qx\<rfloor> = X div T" using js_div_safe [of T X] h qx by auto
    show "\<lfloor>qy\<rfloor> = Y div T" using js_div_safe [of T Y] h qy by auto
  }
qed

lemma gameMaze_exitSeen: "exitSeen (newMazeMap 32) c r \<longleftrightarrow> c = 26 \<and> r = 23"
  by (simp add: exitSeen_exitAt [OF gameMaze_rowsWithinFirst] gameMaze_exit)

text \<open>
  On the maze of the game, whose exit is the cell (26, 23): from the cell (25, 23) to its
  left the answer is true, from the cell (25, 22) diagonally above it the answer is false.
\<close>

theorem win_condition_witness:
  "js_div (x_p (newPlayer (Num 800) (Num 736) (Num 32) (newMazeMap 32)))
          (tileSize_p (newPlayer (Num 800) (Num 736) (Num 32) (newMazeMap 32))) = Num 25
   \<and> js_div (y_p (newPlayer (Num 800) (Num 736) (Num 32) (newMazeMap 32)))
          (tileSize_p (newPlayer (Num 800) (Num 736) (Num 32) (newMazeMap 32))) = Num 23
   \<and> rowsWithinFirst (mazeMap (newPlayer (Num 800) (Num 736) (Num 32) (newMazeMap 32)))
   \<and> exitAt (newMazeMap 32) 26 23
   \<and> checkWinCondition (newPlayer (Num 800) (Num 736) (Num 32) (newMazeMap 32)) = Inr True
   \<and> checkWinCondition (newPlayer (Num 802) (Num 704) (Num 32) (newMazeMap 32)) = Inr False"
proof -
  let ?p = "newPlayer (Num 800) (Num 736) (Num 32) (newMazeMap 32)"
  let ?q = "newPlayer (Num 802) (Num 704) (Num 32) (newMazeMap 32)"
  have rows: "rowsWithinFirst (mazeMap ?p)"
    by (simp add: newPlayer_def gameMaze_rowsWithinFirst)
  have cell_p: "js_div (x_p ?p) (tileSize_p ?p) = Num 25" "js_div (y_p ?p) (tileSize_p ?p) = Num 23"
    by (simp_all add: newPlayer_def)
  have cell_q: "js_div (x_p ?q) (tileSize_p ?q) = Num (401 / 16)"
    "js_div (y_p ?q) (tileSize_p ?q) = Num 22"
    by (simp_all add: newPlayer_def roundDouble_401_16)
  have maze: "mazeMap ?p = newMazeMap 32" "mazeMap ?q = newMazeMap 32"
    by (simp_all add: newPlayer_def)
  have "checkWinCondition ?p = Inr True"
    using win_condition [OF cell_p, of 0 0 800 736 32]
    unfolding maze by (simp add: gameMaze_exitSeen)
  moreover have "checkWinCondition ?q = Inr False"
    using win_condition [OF cell_q, of 26 23 802 704 32]
    unfolding maze by (simp add: gameMaze_exitSeen)
  ultimately show ?thesis
    using rows cell_p by (simp add: gameMaze_exit)
qed

text \<open>
  The claim as written fails on a grid with a row longer than row 0: in the maze of a
  one-tile row over a path and the exit, a player in the cell (1, 1), which is the Exit
  tile, gets the answer false, the column 1 lying past the end of row 0.
\<close>

theorem win_condition_counterexample:
  "js_floor (js_div (Num 32) (Num 32)) = Num 1
   \<and> exitAt longRowMaze 1 1
   \<and> checkWinCondition (newPlayer (Num 32) (Num 32) (Num 32) longRowMaze) = Inr False"
  by (simp add: checkWinCondition_def newPlayer_def isEndPositionN_def outOfBoundsN_def
      js_sub_def js_index_def nth_opt_def exitAt_def cell_def longRowMaze_eq)

text \<open>
  When both quotients are NaN, as with a position and a tile size of zero, the first query
  reads a row that does not exist and the method raises a \<open>TypeError\<close>.
\<close>

lemma isEndPositionN_NaN: "isEndPositionN m NaN NaN = Inl TypeError"
  by (cases "map_m m") (simp_all add: isEndPositionN_def outOfBoundsN_def)

lemma checkWinCondition_nan_throws:
  assumes "js_div (x_p p) (tileSize_p p) = NaN" "js_div (y_p p) (tileSize_p p) = NaN"
  shows "checkWinCondition p = Inl TypeError"
  by (simp add: checkWinCondition_def assms isEndPositionN_NaN)

lemma checkWinCondition_zero_tileSize:
  "checkWinCondition (newPlayer (Num 0) (Num 0) (Num 0) demoMaze) = Inl TypeError"
  by (simp add: checkWinCondition_nan_throws newPlayer_def)

text \<open>
  The floor is taken of the rounded quotient: with a coordinate of 1 and the tile size
  nearest to a fifth the cell is 5.
\<close>

lemma floor_of_rounded_quotient:
  "js_floor (js_div (roundDouble 1) (roundDouble (1 / 5))) = Num 5
   \<and> (1 :: rat) / (3602879701896397 / 2 ^ 54) < 5"
  unfolding roundDouble_fifth roundDouble_1 quotient_of_rounded_fifth
  by simp

section \<open>Parsing the layout\<close>




lemma parseChar_line:
  "snd (parseChar y x c st) = snd st @ [tileCode (spec_classify c)]"
  by (cases st) (simp add: parseChar_def spec_classify_def is_wall_glyph_def)

lemma parseChar_fields:
  "map_m (fst (parseChar y x c st)) = map_m (fst st)"
  "tileSize (fst (parseChar y x c st)) = tileSize (fst st)"
  by (cases st; simp add: parseChar_def)+



lemma parseChars_line:
  "snd (parseChars y x cs st) = snd st @ map (\<lambda>c. tileCode (spec_classify c)) cs"
  by (induction cs arbitrary: x st) (simp_all add: parseChar_line)

lemma parseChars_fields:
  "map_m (fst (parseChars y x cs st)) = map_m (fst st)"
  "tileSize (fst (parseChars y x cs st)) = tileSize (fst st)"
  by (induction cs arbitrary: x st; simp add: parseChar_fields)+






text \<open>The outer loop.\<close>

lemma parseRows_step:
  "parseRows y (r # rs) m =
     parseRows (Suc y) rs
       ((fst (parseChars y 0 r (m, [])))
          \<lparr>map_m := map_m m @ [map (\<lambda>c. tileCode (spec_classify c)) r]\<rparr>)"
  using parseChars_line [of y 0 r "(m, [])"] parseChars_fields(1) [of y 0 r "(m, [])"]
  by (cases "parseChars y 0 r (m, [])") simp

lemma parseRows_map:
  "map_m (parseRows y rs m) = map_m m @ map (map (\<lambda>c. tileCode (spec_classify c))) rs"
  by (induction rs arbitrary: y m) (simp_all add: parseRows_step del: parseRows.simps(2))







lemma split_nl_nonempty: "split_nl s \<noteq> []"
  by (induction s) (auto split: list.splits)











lemma parseLayout_map:
  "map_m (parseLayout ts s) = map (map (\<lambda>c. tileCode (spec_classify c))) (split_nl s)"
  by (simp add: parseLayout_def parseRows_map)

lemma parseLayout_rows_nonempty: "map_m (parseLayout ts s) \<noteq> []"
  by (simp add: parseLayout_map split_nl_nonempty)


























end
